theory Spec2Isabelle
  imports Complex_Main "HOL-Library.Log_Nat" "HOL-Library.Word"
begin

section \<open>Go's float64, as far as the plug clients use it\<close>

text \<open>
  A finite double is kept as a sign bit and the exact rational magnitude it denotes, so
  that negative zero stays apart from zero. Every arithmetic result is rounded to the
  nearest double, ties to even: 53 significant bits, subnormal spacing \<open>2 powi (-1074)\<close>
  below \<open>2 powi (-1022)\<close>, infinity from \<open>2 ^ 1024\<close> on.
\<close>

definition ilog2 :: "rat \<Rightarrow> int" where
  "ilog2 x = (let (a, b) = quotient_of x; d = bitlen a - bitlen b
              in if 2 powi d \<le> x then d else d - 1)"

definition round_even :: "rat \<Rightarrow> int" where
  "round_even x = (let f = \<lfloor>x\<rfloor>; r = x - of_int f
                   in if r < 1 / 2 then f else if 1 / 2 < r then f + 1
                      else if even f then f else f + 1)"

definition quantum :: "rat \<Rightarrow> rat" where
  "quantum x = 2 powi (max (ilog2 x) (- 1022) - 52)"

definition rne :: "rat \<Rightarrow> rat" where
  "rne x = (if x = 0 then 0 else of_int (round_even (x / quantum x)) * quantum x)"

datatype float64 = Finite bool rat | Infinity bool | NaN

definition f64_round :: "bool \<Rightarrow> rat \<Rightarrow> float64" where
  "f64_round s m = (let r = rne m in if 2 ^ 1024 \<le> r then Infinity s else Finite s r)"

text \<open>
  An untyped numeric constant used as a float64, such as \<open>1000\<close> or
  \<open>0.000016666666666666667\<close>, and likewise a decimal number decoded from JSON.
\<close>

definition f64_const :: "rat \<Rightarrow> float64" where
  "f64_const q = f64_round (q < 0) \<bar>q\<bar>"

text \<open>The conversion \<open>float64(x)\<close> of an int64.\<close>

definition float64_of_int64 :: "64 word \<Rightarrow> float64" where
  "float64_of_int64 x = f64_round (sint x < 0) (of_int \<bar>sint x\<bar>)"

fun f64_mul :: "float64 \<Rightarrow> float64 \<Rightarrow> float64" where
  "f64_mul (Finite s a) (Finite t b) = f64_round (s \<noteq> t) (a * b)"
| "f64_mul (Finite s a) (Infinity t) = (if a = 0 then NaN else Infinity (s \<noteq> t))"
| "f64_mul (Infinity s) (Finite t b) = (if b = 0 then NaN else Infinity (s \<noteq> t))"
| "f64_mul (Infinity s) (Infinity t) = Infinity (s \<noteq> t)"
| "f64_mul NaN y = NaN"
| "f64_mul x NaN = NaN"

fun f64_div :: "float64 \<Rightarrow> float64 \<Rightarrow> float64" where
  "f64_div (Finite s a) (Finite t b) =
     (if b = 0 then (if a = 0 then NaN else Infinity (s \<noteq> t)) else f64_round (s \<noteq> t) (a / b))"
| "f64_div (Finite s a) (Infinity t) = Finite (s \<noteq> t) 0"
| "f64_div (Infinity s) (Finite t b) = Infinity (s \<noteq> t)"
| "f64_div (Infinity s) (Infinity t) = NaN"
| "f64_div NaN y = NaN"
| "f64_div x NaN = NaN"

text \<open>The comparison \<open>==\<close>: the two zeros are equal, NaN equals nothing.\<close>

fun f64_eq :: "float64 \<Rightarrow> float64 \<Rightarrow> bool" where
  "f64_eq (Finite s a) (Finite t b) = (a = b \<and> (s = t \<or> a = 0))"
| "f64_eq (Infinity s) (Infinity t) = (s = t)"
| "f64_eq x y = False"

fun is_finite :: "float64 \<Rightarrow> bool" where
  "is_finite (Finite s m) = True"
| "is_finite x = False"

fun f64_value :: "float64 \<Rightarrow> rat" where
  "f64_value (Finite s m) = (if s then - m else m)"
| "f64_value x = 0"

section \<open>Formatting verbs of package fmt\<close>

definition digit_char :: "nat \<Rightarrow> char" where
  "digit_char d = char_of (48 + d)"

fun Itoa :: "nat \<Rightarrow> string" where
  "Itoa n = (if n < 10 then [digit_char n] else Itoa (n div 10) @ [digit_char (n mod 10)])"

declare Itoa.simps [simp del]

text \<open>
  The verb \<open>%.2f\<close>: the exact value of the double, correctly rounded to two decimals
  (ties to even); the sign is printed whenever the sign bit is set.
\<close>

fun fmt_f2 :: "float64 \<Rightarrow> string" where
  "fmt_f2 (Finite s m) =
     (let n = nat (round_even (m * 100))
      in (if s then ''-'' else []) @ Itoa (n div 100) @ ''.''
         @ [digit_char (n mod 100 div 10), digit_char (n mod 10)])"
| "fmt_f2 (Infinity s) = (if s then ''-Inf'' else ''+Inf'')"
| "fmt_f2 NaN = ''NaN''"

definition fmt_t :: "bool \<Rightarrow> string" where
  "fmt_t b = (if b then ''true'' else ''false'')"

definition Fprintln :: "string \<Rightarrow> string \<Rightarrow> string" where
  "Fprintln w s = w @ s @ ''\<newline>''"

section \<open>The device address: net/url\<close>

record Userinfo =
  Userinfo_username :: string
  Userinfo_password :: string
  Userinfo_passwordSet :: bool

record URL =
  Scheme :: string
  User :: "Userinfo option"
  Host :: string

definition UserPassword :: "string \<Rightarrow> string \<Rightarrow> Userinfo" where
  "UserPassword username password =
     \<lparr>Userinfo_username = username, Userinfo_password = password, Userinfo_passwordSet = True\<rparr>"

definition Username :: "Userinfo \<Rightarrow> string" where
  "Username u = Userinfo_username u"

definition Password :: "Userinfo \<Rightarrow> string \<times> bool" where
  "Password u = (Userinfo_password u, Userinfo_passwordSet u)"

fun LastIndexByte :: "string \<Rightarrow> char \<Rightarrow> nat option" where
  "LastIndexByte [] c = None"
| "LastIndexByte (x # xs) c =
     (case LastIndexByte xs c of
        Some i \<Rightarrow> Some (Suc i)
      | None \<Rightarrow> if x = c then Some 0 else None)"

definition validOptionalPort :: "string \<Rightarrow> bool" where
  "validOptionalPort port =
     (case port of
        [] \<Rightarrow> True
      | c # rest \<Rightarrow> c = CHR '':'' \<and> list_all (\<lambda>b. b \<in> set ''0123456789'') rest)"

definition HasPrefix :: "string \<Rightarrow> string \<Rightarrow> bool" where
  "HasPrefix s p = (take (length p) s = p)"

definition HasSuffix :: "string \<Rightarrow> string \<Rightarrow> bool" where
  "HasSuffix s p = (length p \<le> length s \<and> drop (length s - length p) s = p)"

text \<open>
  \<open>URL.Hostname\<close> is \<open>Host\<close> without a valid port: what follows the last colon is cut off
  when it is empty or all digits, and enclosing square brackets are removed.
\<close>

definition splitHostPort :: "string \<Rightarrow> string \<times> string" where
  "splitHostPort hostPort =
     (let (host, port) =
            (case LastIndexByte hostPort CHR '':'' of
               None \<Rightarrow> (hostPort, [])
             | Some colon \<Rightarrow>
                 if validOptionalPort (drop colon hostPort)
                 then (take colon hostPort, drop (colon + 1) hostPort)
                 else (hostPort, []))
      in if HasPrefix host ''['' \<and> HasSuffix host '']''
         then (take (length host - 2) (drop 1 host), port)
         else (host, port))"

definition Hostname :: "URL \<Rightarrow> string" where
  "Hostname u = fst (splitHostPort (Host u))"

section \<open>Errors, panics and JSON values\<close>

datatype error = Errorf string | RestyError string | JsonError string

fun Error :: "error \<Rightarrow> string" where
  "Error (Errorf m) = m"
| "Error (RestyError m) = m"
| "Error (JsonError m) = m"

text \<open>A call either returns or panics; a method returning \<open>error\<close> returns \<open>None\<close> for nil.\<close>

datatype 'a outcome = Return 'a | Panic string

definition nil_dereference :: string where
  "nil_dereference = ''runtime error: invalid memory address or nil pointer dereference''"

text \<open>The values handed to \<open>json.MarshalIndent\<close>: a \<open>map[string]any\<close> of numbers, maps and strings.\<close>

datatype json = JNull | JNumber float64 | JString string | JObject "(string \<times> json) list"

definition index :: "(string \<times> json) list \<Rightarrow> string \<Rightarrow> json" where
  "index m k = (case map_of m k of None \<Rightarrow> JNull | Some v \<Rightarrow> v)"

section \<open>Wire schema, generation 1\<close>

record wiFiStatusV1 =
  wiFiStatusV1_Connected :: bool
  wiFiStatusV1_SSID :: string
  wiFiStatusV1_IP :: string
  wiFiStatusV1_RSSI :: int

record cloudStatusV1 =
  cloudStatusV1_Enabled :: bool
  cloudStatusV1_Connected :: bool

record mQTTStatusV1 =
  mQTTStatusV1_Connected :: bool

record updateStatusV1 =
  updateStatusV1_Status :: string
  updateStatusV1_HasUpdate :: bool
  updateStatusV1_NewVersion :: string
  updateStatusV1_OldVersion :: string

record fileSystemStatusV1 =
  fileSystemStatusV1_Size :: "64 word"
  fileSystemStatusV1_Free :: "64 word"

record relayV1 =
  relayV1_IsOn :: bool
  relayV1_HasTimer :: bool
  relayV1_TimerStarted :: "64 word"
  relayV1_TimerDuration :: "64 word"
  relayV1_TimerRemaining :: "64 word"
  relayV1_Overpower :: bool
  relayV1_Source :: string

record meterV1 =
  meterV1_Power :: float64
  meterV1_Overpower :: float64
  meterV1_IsValid :: bool
  meterV1_Timestamp :: "64 word"
  meterV1_Counters :: "float64 list"
  meterV1_Total :: "64 word"

record deviceStatusV1 =
  deviceStatusV1_WiFi :: wiFiStatusV1
  deviceStatusV1_Cloud :: cloudStatusV1
  deviceStatusV1_MQTT :: mQTTStatusV1
  deviceStatusV1_Time :: string
  deviceStatusV1_Unixtime :: "64 word"
  deviceStatusV1_Serial :: "64 word"
  deviceStatusV1_MAC :: string
  deviceStatusV1_Update :: updateStatusV1
  deviceStatusV1_FS :: fileSystemStatusV1
  deviceStatusV1_Uptime :: "64 word"
  deviceStatusV1_Relays :: "relayV1 list"
  deviceStatusV1_Meters :: "meterV1 list"
  deviceStatusV1_RamTotal :: "64 word"
  deviceStatusV1_RamFree :: "64 word"
  deviceStatusV1_FsSize :: "64 word"
  deviceStatusV1_FsFree :: "64 word"

section \<open>Wire schema, generation 2\<close>

record UpdateInfoV2 =
  UpdateInfoV2_Version :: string

record AvailableUpdatesV2 =
  AvailableUpdatesV2_Beta :: "UpdateInfoV2 option"
  AvailableUpdatesV2_Stable :: "UpdateInfoV2 option"

record WakeupReasonV2 =
  WakeupReasonV2_Boot :: string
  WakeupReasonV2_Cause :: string

record SystemStatusV2 =
  SystemStatusV2_MAC :: string
  SystemStatusV2_RestartRequired :: bool
  SystemStatusV2_Time :: string
  SystemStatusV2_UnixTime :: "64 word"
  SystemStatusV2_LastSyncTS :: "64 word"
  SystemStatusV2_Uptime :: "64 word"
  SystemStatusV2_RAMSize :: "64 word"
  SystemStatusV2_RAMFree :: "64 word"
  SystemStatusV2_FSSize :: "64 word"
  SystemStatusV2_FSFree :: "64 word"
  SystemStatusV2_CfgRev :: "64 word"
  SystemStatusV2_KVSRev :: "64 word"
  SystemStatusV2_ScheduleRev :: "64 word"
  SystemStatusV2_WebhookRev :: "64 word"
  SystemStatusV2_KNXRev :: "64 word"
  SystemStatusV2_BTRelayRev :: "64 word"
  SystemStatusV2_BTHCRev :: "64 word"
  SystemStatusV2_AvailableUpdates :: AvailableUpdatesV2
  SystemStatusV2_WakeupReason :: "WakeupReasonV2 option"
  SystemStatusV2_WakeupPeriod :: "64 word option"
  SystemStatusV2_UTCOffset :: "64 word"

record ActiveEnergyV2 =
  ActiveEnergyV2_Total :: float64
  ActiveEnergyV2_ByMinute :: "float64 list"
  ActiveEnergyV2_MinuteTS :: "64 word"

record ReturnedEnergyV2 =
  ReturnedEnergyV2_Total :: float64
  ReturnedEnergyV2_ByMinute :: "float64 list"
  ReturnedEnergyV2_MinuteTS :: "64 word"

record TemperatureStatusV2 =
  TemperatureStatusV2_TC :: float64
  TemperatureStatusV2_TF :: float64

record SwitchStatusV2 =
  SwitchStatusV2_ID :: int
  SwitchStatusV2_Source :: string
  SwitchStatusV2_Output :: bool
  SwitchStatusV2_TimerStartedAt :: "64 word"
  SwitchStatusV2_TimerDuration :: "64 word"
  SwitchStatusV2_APower :: float64
  SwitchStatusV2_Voltage :: float64
  SwitchStatusV2_Current :: float64
  SwitchStatusV2_PF :: float64
  SwitchStatusV2_Freq :: float64
  SwitchStatusV2_AEnergy :: "ActiveEnergyV2 option"
  SwitchStatusV2_RetAEnergy :: "ReturnedEnergyV2 option"
  SwitchStatusV2_Temperature :: "TemperatureStatusV2 option"
  SwitchStatusV2_Errors :: "string list"

record SwitchStateV2 =
  SwitchStateV2_IsOn :: bool
  SwitchStateV2_HasTimer :: bool
  SwitchStateV2_TimerStartedAt :: "64 word"
  SwitchStateV2_TimerDuration :: float64
  SwitchStateV2_TimerRemaining :: float64
  SwitchStateV2_Overpower :: bool
  SwitchStateV2_Source :: string

record WifiStatusV2 =
  WifiStatusV2_StaIP :: string
  WifiStatusV2_Status :: string
  WifiStatusV2_SSID :: string
  WifiStatusV2_BSSID :: string
  WifiStatusV2_RSSI :: int
  WifiStatusV2_APClientCount :: int

record DeviceStatusV2 =
  DeviceStatusV2_System :: "SystemStatusV2 option"
  DeviceStatusV2_Switch1 :: "SwitchStatusV2 option"
  DeviceStatusV2_WiFi :: "WifiStatusV2 option"

section \<open>Configuration set from the command line\<close>

text \<open>
  The package-level variables. \<open>ip\<close> holds the text \<open>ip.String()\<close> of the parsed address.
\<close>

record config =
  ip :: string
  user :: string
  pass :: string
  jsonFormat :: bool
  choriaFormat :: bool
  labels :: "(string \<times> string) list"
  v2Plus :: bool

definition deviceUrl :: "config \<Rightarrow> URL" where
  "deviceUrl cfg =
     (let usr = (if user cfg \<noteq> [] \<and> pass cfg \<noteq> []
                 then Some (UserPassword (user cfg) (pass cfg)) else None)
      in \<lparr>Scheme = ''http'', User = usr, Host = ip cfg\<rparr>)"

section \<open>The network, seen through the resty client\<close>

text \<open>
  A request as the code configures it before sending. The network answers every request
  with an error or a response; it is part of the state together with the list of requests
  sent so far and the lines given to package log. Every fetch starts from a fresh request,
  so \<open>SetQueryParams\<close> finds no earlier parameter to replace.
\<close>

record request =
  request_URL :: string
  request_QueryParam :: "(string \<times> string) list"
  request_UserInfo :: "(string \<times> string) option"
  request_DisableWarn :: bool

record response =
  response_IsError :: bool
  response_RequestURL :: string
  response_String :: string
  response_Body :: string

record world =
  device :: "request list \<Rightarrow> request \<Rightarrow> error + response"
  sent :: "request list"
  logged :: "string list"

definition resty_R :: request where
  "resty_R = \<lparr>request_URL = [], request_QueryParam = [], request_UserInfo = None,
              request_DisableWarn = False\<rparr>"

definition SetBasicAuth :: "string \<Rightarrow> string \<Rightarrow> request \<Rightarrow> request" where
  "SetBasicAuth username password client = client\<lparr>request_UserInfo := Some (username, password)\<rparr>"

definition SetQueryParams :: "(string \<times> string) list \<Rightarrow> request \<Rightarrow> request" where
  "SetQueryParams queries client =
     client\<lparr>request_QueryParam := request_QueryParam client @ queries\<rparr>"

definition client_Get :: "request \<Rightarrow> string \<Rightarrow> world \<Rightarrow> (error + response) \<times> world" where
  "client_Get client url net =
     (let rq = client\<lparr>request_URL := url\<rparr>
      in (device net (sent net) rq, net\<lparr>sent := sent net @ [rq]\<rparr>))"

definition log_Printf :: "string \<Rightarrow> world \<Rightarrow> world" where
  "log_Printf line net = net\<lparr>logged := logged net @ [line]\<rparr>"

section \<open>Client construction\<close>

datatype Plug = shellyPlug URL | shellyPlugV1 URL | shellyPlugV2 URL

definition NewShellyPlug :: "URL \<Rightarrow> world \<Rightarrow> (error + Plug) \<times> world" where
  "NewShellyPlug address net =
     (if Host address = [] then (Inl (Errorf ''invalid address''), net)
      else (Inr (shellyPlug address), net))"

definition newShellyV1Plug :: "URL \<Rightarrow> world \<Rightarrow> (error + Plug) \<times> world" where
  "newShellyV1Plug address net =
     (if Host address = [] then (Inl (Errorf ''invalid address''), net)
      else (Inr (shellyPlugV1 address), net))"

definition newShellyV2Plug :: "URL \<Rightarrow> world \<Rightarrow> (error + Plug) \<times> world" where
  "newShellyV2Plug address net =
     (if Host address = [] then (Inl (Errorf ''invalid address''), net)
      else (Inr (shellyPlugV2 address), net))"

definition newPlug :: "config \<Rightarrow> world \<Rightarrow> (error + Plug) \<times> world" where
  "newPlug cfg net =
     (if v2Plus cfg then (Inl (Errorf ''shelly V2+ devices are not supported yet''), net)
      else newShellyV1Plug (deviceUrl cfg) net)"

section \<open>Transport adapters\<close>

text \<open>
  \<open>json.Unmarshal\<close> into the target type is a parameter of each adapter: it maps a body to
  the decoded value or to the decoder's error.
\<close>

definition shellyPlug_get ::
  "(string \<Rightarrow> error + 'a) \<Rightarrow> URL \<Rightarrow> string \<Rightarrow> (string \<times> string) list \<Rightarrow> world
     \<Rightarrow> (error + 'a) \<times> world" where
  "shellyPlug_get Unmarshal address path queries net =
     (let client = resty_R;
          client = (case User address of
                      None \<Rightarrow> client
                    | Some u \<Rightarrow>
                        (let (password, _) = Password u
                         in (SetBasicAuth (Username u) password client)
                              \<lparr>request_DisableWarn := True\<rparr>));
          client = SetQueryParams queries client
      in case client_Get client (''http://'' @ Hostname address @ ''/'' @ path) net of
           (Inl err, net') \<Rightarrow> (Inl err, net')
         | (Inr resp, net') \<Rightarrow>
             if response_IsError resp
             then (Inl (Errorf (response_RequestURL resp @ '': '' @ response_String resp)), net')
             else (case Unmarshal (response_Body resp) of
                     Inl err \<Rightarrow> (Inl (Errorf (''invalid response body: '' @ Error err)), net')
                   | Inr res \<Rightarrow> (Inr res, net')))"

definition shellyPlugV1_get ::
  "(string \<Rightarrow> error + 'a) \<Rightarrow> URL \<Rightarrow> string \<Rightarrow> (string \<times> string) list \<Rightarrow> world
     \<Rightarrow> (error + 'a) \<times> world" where
  "shellyPlugV1_get Unmarshal address path queries net =
     (let client = resty_R;
          client = (case User address of
                      None \<Rightarrow> client
                    | Some u \<Rightarrow>
                        (let (password, _) = Password u
                         in (SetBasicAuth (Username u) password client)
                              \<lparr>request_DisableWarn := True\<rparr>));
          client = SetQueryParams queries client
      in case client_Get client (''http://'' @ Hostname address @ ''/'' @ path) net of
           (Inl err, net') \<Rightarrow> (Inl err, net')
         | (Inr resp, net') \<Rightarrow>
             if response_IsError resp
             then (Inl (Errorf (response_RequestURL resp @ '': '' @ response_String resp)), net')
             else (case Unmarshal (response_Body resp) of
                     Inl err \<Rightarrow> (Inl (Errorf (''invalid response body: '' @ Error err)), net')
                   | Inr res \<Rightarrow> (Inr res, net')))"

definition shellyPlugV2_get ::
  "(string \<Rightarrow> error + 'a) \<Rightarrow> URL \<Rightarrow> string \<Rightarrow> (string \<times> string) list \<Rightarrow> world
     \<Rightarrow> (error + 'a) \<times> world" where
  "shellyPlugV2_get Unmarshal address path queries net =
     (let client = resty_R;
          client = (case User address of
                      None \<Rightarrow> client
                    | Some u \<Rightarrow>
                        (let (password, _) = Password u
                         in (SetBasicAuth (Username u) password client)
                              \<lparr>request_DisableWarn := True\<rparr>));
          client = SetQueryParams queries client
      in case client_Get client (''http://'' @ Hostname address @ ''/'' @ path) net of
           (Inl err, net') \<Rightarrow> (Inl err, net')
         | (Inr resp, net') \<Rightarrow>
             if response_IsError resp
             then (Inl (Errorf (response_RequestURL resp @ '': '' @ response_String resp)), net')
             else (let body = response_Body resp;
                       net'' = log_Printf (''body: '' @ body @ ''\<newline>'') net'
                   in case Unmarshal body of
                        Inl err \<Rightarrow> (Inl (Errorf (''invalid response body: '' @ Error err)), net'')
                      | Inr res \<Rightarrow> (Inr res, net'')))"

section \<open>Device client, generation 1\<close>

definition shellyPlugV1_Status ::
  "(string \<Rightarrow> error + deviceStatusV1) \<Rightarrow> URL \<Rightarrow> world \<Rightarrow> (error + deviceStatusV1) \<times> world" where
  "shellyPlugV1_Status Unmarshal address net =
     (case shellyPlugV1_get Unmarshal address ''status'' [] net of
        (Inl err, net') \<Rightarrow> (Inl err, net')
      | (Inr res, net') \<Rightarrow> (Inr res, net'))"

definition shellyPlugV1_TurnOn ::
  "(string \<Rightarrow> error + relayV1) \<Rightarrow> URL \<Rightarrow> world \<Rightarrow> (bool \<times> error option) \<times> world" where
  "shellyPlugV1_TurnOn Unmarshal address net =
     (case shellyPlugV1_get Unmarshal address ''relay/0'' [(''turn'', ''on'')] net of
        (Inl err, net') \<Rightarrow> ((False, Some err), net')
      | (Inr res, net') \<Rightarrow>
          if \<not> relayV1_IsOn res then ((False, Some (Errorf ''relay is not on'')), net')
          else ((relayV1_IsOn res, None), net'))"

definition shellyPlugV1_TurnOff ::
  "(string \<Rightarrow> error + relayV1) \<Rightarrow> URL \<Rightarrow> world \<Rightarrow> (bool \<times> error option) \<times> world" where
  "shellyPlugV1_TurnOff Unmarshal address net =
     (case shellyPlugV1_get Unmarshal address ''relay/0'' [(''turn'', ''off'')] net of
        (Inl err, net') \<Rightarrow> ((False, Some err), net')
      | (Inr res, net') \<Rightarrow>
          if relayV1_IsOn res then ((relayV1_IsOn res, Some (Errorf ''relay is on'')), net')
          else ((relayV1_IsOn res, None), net'))"

text \<open>
  \<open>RenderEnergy\<close> writes to the sink \<open>w\<close>, here the text written so far, and returns the
  error (or nil), the sink and the network state. \<open>json.MarshalIndent\<close> with indent of two
  spaces is the parameter \<open>MarshalIndent\<close>.
\<close>

definition shellyPlugV1_RenderEnergy ::
  "config \<Rightarrow> (json \<Rightarrow> error + string) \<Rightarrow> (string \<Rightarrow> error + deviceStatusV1) \<Rightarrow> URL
     \<Rightarrow> string \<Rightarrow> world \<Rightarrow> error option outcome \<times> string \<times> world" where
  "shellyPlugV1_RenderEnergy cfg MarshalIndent Unmarshal address w net =
     (case shellyPlugV1_Status Unmarshal address net of
        (Inl err, net') \<Rightarrow> (Return (Some err), w, net')
      | (Inr status, net') \<Rightarrow>
          if length (deviceStatusV1_Meters status) \<noteq> 1
          then (Return (Some (Errorf ''no meter information received'')), w, net')
          else if length (deviceStatusV1_Relays status) \<noteq> length (deviceStatusV1_Meters status)
          then (Return (Some (Errorf ''invalid relay information received'')), w, net')
          else
            (let m = deviceStatusV1_Meters status ! 0;
                 r = deviceStatusV1_Relays status ! 0;
                 isOn = (if relayV1_IsOn r then f64_const 1 else f64_const 0);
                 reading =
                   [(''power_watt'', JNumber (meterV1_Power m)),
                    (''power_total_kwh'',
                       JNumber (f64_mul (float64_of_int64 (meterV1_Total m))
                                  (f64_const (16666666666666667 / 1000000000000000000000)))),
                    (''is_on'', JNumber isOn)]
             in if jsonFormat cfg then
                  (case MarshalIndent (JObject reading) of
                     Inl err \<Rightarrow> (Return (Some err), w, net')
                   | Inr j \<Rightarrow> (Return None, Fprintln w j, net'))
                else if choriaFormat cfg then
                  (let data =
                         [(''labels'', JObject (map (\<lambda>(k, v). (k, JString v)) (labels cfg))),
                          (''metrics'', JObject
                             [(''current_power_watt'', index reading ''power_watt''),
                              (''today_energy_kwh'', index reading ''power_total_kwh''),
                              (''relay_on'', index reading ''is_on'')])]
                   in case MarshalIndent (JObject data) of
                        Inl err \<Rightarrow> (Return (Some err), w, net')
                      | Inr j \<Rightarrow> (Return None, Fprintln w j, net'))
                else
                  (let w = Fprintln w ''Meter Information'';
                       w = Fprintln w [];
                       w = w @ ''          Powered On: '' @ fmt_t (f64_eq isOn (f64_const 1))
                             @ ''\<newline>'';
                       w = w @ ''               Power: '' @ fmt_f2 (meterV1_Power m)
                             @ '' Watt\<newline>'';
                       w = w @ ''   Total Consumption: ''
                             @ fmt_f2 (f64_mul (float64_of_int64 (meterV1_Total m))
                                         (f64_const (16666666666666667 / 1000000000000000000000)))
                             @ '' kWh\<newline>''
                   in (Return None, w, net'))))"

section \<open>Device client, generation 2\<close>

definition shellyPlugV2_Status ::
  "(string \<Rightarrow> error + DeviceStatusV2) \<Rightarrow> URL \<Rightarrow> world \<Rightarrow> (error + DeviceStatusV2) \<times> world" where
  "shellyPlugV2_Status Unmarshal address net =
     (case shellyPlugV2_get Unmarshal address ''rpc/Shelly.GetStatus'' [] net of
        (Inl err, net') \<Rightarrow> (Inl err, net')
      | (Inr res, net') \<Rightarrow> (Inr res, net'))"

definition shellyPlugV2_TurnOn ::
  "(string \<Rightarrow> error + SwitchStateV2) \<Rightarrow> URL \<Rightarrow> world \<Rightarrow> (bool \<times> error option) \<times> world" where
  "shellyPlugV2_TurnOn Unmarshal address net =
     (case shellyPlugV2_get Unmarshal address ''relay/0'' [(''turn'', ''on'')] net of
        (Inl err, net') \<Rightarrow> ((False, Some err), net')
      | (Inr res, net') \<Rightarrow>
          if \<not> SwitchStateV2_IsOn res then ((False, Some (Errorf ''relay is not on'')), net')
          else ((SwitchStateV2_IsOn res, None), net'))"

definition shellyPlugV2_TurnOff ::
  "(string \<Rightarrow> error + SwitchStateV2) \<Rightarrow> URL \<Rightarrow> world \<Rightarrow> (bool \<times> error option) \<times> world" where
  "shellyPlugV2_TurnOff Unmarshal address net =
     (case shellyPlugV2_get Unmarshal address ''relay/0'' [(''turn'', ''off'')] net of
        (Inl err, net') \<Rightarrow> ((False, Some err), net')
      | (Inr res, net') \<Rightarrow>
          if SwitchStateV2_IsOn res
          then ((SwitchStateV2_IsOn res, Some (Errorf ''relay is on'')), net')
          else ((SwitchStateV2_IsOn res, None), net'))"

text \<open>
  The map \<open>reading\<close> is built after the two nil checks; building it reads
  \<open>status.Switch1.Temperature.TC\<close>, which panics when \<open>Temperature\<close> is nil.
\<close>

definition shellyPlugV2_RenderEnergy ::
  "config \<Rightarrow> (json \<Rightarrow> error + string) \<Rightarrow> (string \<Rightarrow> error + DeviceStatusV2) \<Rightarrow> URL
     \<Rightarrow> string \<Rightarrow> world \<Rightarrow> error option outcome \<times> string \<times> world" where
  "shellyPlugV2_RenderEnergy cfg MarshalIndent Unmarshal address w net =
     (case shellyPlugV2_Status Unmarshal address net of
        (Inl err, net') \<Rightarrow> (Return (Some err), w, net')
      | (Inr status, net') \<Rightarrow>
          (case DeviceStatusV2_Switch1 status of
             None \<Rightarrow> (Return (Some (Errorf ''no switch information received'')), w, net')
           | Some Switch1 \<Rightarrow>
               (case SwitchStatusV2_AEnergy Switch1 of
                  None \<Rightarrow> (Return (Some (Errorf ''no meter information received'')), w, net')
                | Some AEnergy \<Rightarrow>
                    (let isOn = (if SwitchStatusV2_Output Switch1 then f64_const 1
                                 else f64_const 0)
                     in case SwitchStatusV2_Temperature Switch1 of
                          None \<Rightarrow> (Panic nil_dereference, w, net')
                        | Some Temperature \<Rightarrow>
                            (let reading =
                                   [(''power_watt'', JNumber (SwitchStatusV2_APower Switch1)),
                                    (''power_volt'', JNumber (SwitchStatusV2_Voltage Switch1)),
                                    (''power_ampere'', JNumber (SwitchStatusV2_Current Switch1)),
                                    (''power_frequency'', JNumber (SwitchStatusV2_Freq Switch1)),
                                    (''power_total_kwh'',
                                       JNumber (f64_div (ActiveEnergyV2_Total AEnergy)
                                                  (f64_const 1000))),
                                    (''internal_celsius'',
                                       JNumber (TemperatureStatusV2_TC Temperature)),
                                    (''is_on'', JNumber isOn)]
                             in if jsonFormat cfg then
                                  (case MarshalIndent (JObject reading) of
                                     Inl err \<Rightarrow> (Return (Some err), w, net')
                                   | Inr j \<Rightarrow> (Return None, Fprintln w j, net'))
                                else if choriaFormat cfg then
                                  (let data =
                                         [(''labels'',
                                             JObject (map (\<lambda>(k, v). (k, JString v)) (labels cfg))),
                                          (''metrics'', JObject
                                             [(''current_power_watt'', index reading ''power_watt''),
                                              (''current_power_volt'', index reading ''power_volt''),
                                              (''current_power_ampere'',
                                                 index reading ''power_ampere''),
                                              (''current_power_frequency'',
                                                 index reading ''power_frequency''),
                                              (''internal_celsius'',
                                                 index reading ''internal_celsius''),
                                              (''total_energy_kwh'',
                                                 index reading ''power_total_kwh''),
                                              (''relay_on'', index reading ''is_on'')])]
                                   in case MarshalIndent (JObject data) of
                                        Inl err \<Rightarrow> (Return (Some err), w, net')
                                      | Inr j \<Rightarrow> (Return None, Fprintln w j, net'))
                                else
                                  (let w = Fprintln w ''Meter Information'';
                                       w = Fprintln w [];
                                       w = w @ ''              Powered On: ''
                                             @ fmt_t (f64_eq isOn (f64_const 1)) @ ''\<newline>'';
                                       w = w @ ''                   Power: ''
                                             @ fmt_f2 (SwitchStatusV2_APower Switch1)
                                             @ '' Watt\<newline>'';
                                       w = w @ ''                 Voltage: ''
                                             @ fmt_f2 (SwitchStatusV2_Voltage Switch1)
                                             @ '' V\<newline>'';
                                       w = w @ ''                 Current: ''
                                             @ fmt_f2 (SwitchStatusV2_Current Switch1)
                                             @ '' Amp\<newline>'';
                                       w = w @ ''               Frequency: ''
                                             @ fmt_f2 (SwitchStatusV2_Freq Switch1)
                                             @ '' Hz\<newline>'';
                                       w = w @ ''       Total Consumption: ''
                                             @ fmt_f2 (f64_div (ActiveEnergyV2_Total AEnergy)
                                                         (f64_const 1000))
                                             @ '' kWh\<newline>'';
                                       w = w @ ''           Internal Temp: ''
                                             @ fmt_f2 (TemperatureStatusV2_TC Temperature)
                                             @ '' C\<newline>''
                                   in (Return None, w, net')))))))"

section \<open>Example devices and payloads\<close>

text \<open>
  A device that answers every request with the same successful body, a network on which
  nothing has been sent yet, and a decoder that knows one body.
\<close>

definition respond :: "string \<Rightarrow> request list \<Rightarrow> request \<Rightarrow> error + response" where
  "respond body history rq =
     Inr \<lparr>response_IsError = False, response_RequestURL = request_URL rq,
          response_String = body, response_Body = body\<rparr>"

definition idle_net :: "string \<Rightarrow> world" where
  "idle_net body = \<lparr>device = respond body, sent = [], logged = []\<rparr>"

definition decode_as :: "string \<Rightarrow> 'a \<Rightarrow> string \<Rightarrow> error + 'a" where
  "decode_as body v b =
     (if b = body then Inr v else Inl (JsonError ''unexpected end of JSON input''))"

definition encode_fixed :: "json \<Rightarrow> error + string" where
  "encode_fixed j = Inr ''{}''"

definition plug_address :: URL where
  "plug_address = \<lparr>Scheme = ''http'', User = None, Host = ''192.168.1.10''\<rparr>"

definition no_address :: URL where
  "no_address = \<lparr>Scheme = ''http'', User = None, Host = []\<rparr>"

definition secured_address :: URL where
  "secured_address = plug_address\<lparr>User := Some (UserPassword ''admin'' ''secret'')\<rparr>"

definition config_zero :: config where
  "config_zero = \<lparr>ip = ''192.168.1.10'', user = [], pass = [], jsonFormat = False,
                  choriaFormat = False, labels = [], v2Plus = False\<rparr>"

text \<open>The zero values that \<open>json.Unmarshal\<close> fills in.\<close>

definition f64_zero :: float64 where
  "f64_zero = Finite False 0"

definition relayV1_zero :: relayV1 where
  "relayV1_zero = \<lparr>relayV1_IsOn = False, relayV1_HasTimer = False, relayV1_TimerStarted = 0,
                    relayV1_TimerDuration = 0, relayV1_TimerRemaining = 0,
                    relayV1_Overpower = False, relayV1_Source = []\<rparr>"

definition meterV1_zero :: meterV1 where
  "meterV1_zero = \<lparr>meterV1_Power = f64_zero, meterV1_Overpower = f64_zero,
                    meterV1_IsValid = False, meterV1_Timestamp = 0, meterV1_Counters = [],
                    meterV1_Total = 0\<rparr>"

definition deviceStatusV1_zero :: deviceStatusV1 where
  "deviceStatusV1_zero =
     \<lparr>deviceStatusV1_WiFi = \<lparr>wiFiStatusV1_Connected = False, wiFiStatusV1_SSID = [],
                               wiFiStatusV1_IP = [], wiFiStatusV1_RSSI = 0\<rparr>,
      deviceStatusV1_Cloud = \<lparr>cloudStatusV1_Enabled = False, cloudStatusV1_Connected = False\<rparr>,
      deviceStatusV1_MQTT = \<lparr>mQTTStatusV1_Connected = False\<rparr>,
      deviceStatusV1_Time = [], deviceStatusV1_Unixtime = 0, deviceStatusV1_Serial = 0,
      deviceStatusV1_MAC = [],
      deviceStatusV1_Update = \<lparr>updateStatusV1_Status = [], updateStatusV1_HasUpdate = False,
                                 updateStatusV1_NewVersion = [], updateStatusV1_OldVersion = []\<rparr>,
      deviceStatusV1_FS = \<lparr>fileSystemStatusV1_Size = 0, fileSystemStatusV1_Free = 0\<rparr>,
      deviceStatusV1_Uptime = 0, deviceStatusV1_Relays = [], deviceStatusV1_Meters = [],
      deviceStatusV1_RamTotal = 0, deviceStatusV1_RamFree = 0, deviceStatusV1_FsSize = 0,
      deviceStatusV1_FsFree = 0\<rparr>"

definition SwitchStateV2_zero :: SwitchStateV2 where
  "SwitchStateV2_zero =
     \<lparr>SwitchStateV2_IsOn = False, SwitchStateV2_HasTimer = False,
      SwitchStateV2_TimerStartedAt = 0, SwitchStateV2_TimerDuration = f64_zero,
      SwitchStateV2_TimerRemaining = f64_zero, SwitchStateV2_Overpower = False,
      SwitchStateV2_Source = []\<rparr>"

definition SwitchStatusV2_zero :: SwitchStatusV2 where
  "SwitchStatusV2_zero =
     \<lparr>SwitchStatusV2_ID = 0, SwitchStatusV2_Source = [], SwitchStatusV2_Output = False,
      SwitchStatusV2_TimerStartedAt = 0, SwitchStatusV2_TimerDuration = 0,
      SwitchStatusV2_APower = f64_zero, SwitchStatusV2_Voltage = f64_zero,
      SwitchStatusV2_Current = f64_zero, SwitchStatusV2_PF = f64_zero,
      SwitchStatusV2_Freq = f64_zero, SwitchStatusV2_AEnergy = None,
      SwitchStatusV2_RetAEnergy = None, SwitchStatusV2_Temperature = None,
      SwitchStatusV2_Errors = []\<rparr>"

definition DeviceStatusV2_zero :: DeviceStatusV2 where
  "DeviceStatusV2_zero =
     \<lparr>DeviceStatusV2_System = None, DeviceStatusV2_Switch1 = None, DeviceStatusV2_WiFi = None\<rparr>"

text \<open>A generation 1 plug that reports its meter and no relay, and one that reports both.\<close>

definition meter_reading :: meterV1 where
  "meter_reading = meterV1_zero\<lparr>meterV1_Power := f64_const (245 / 100), meterV1_Total := 615\<rparr>"

definition meters_only_body :: string where
  "meters_only_body = ''{\"meters\":[{\"power\":2.45,\"total\":615}]}''"

definition meters_only :: deviceStatusV1 where
  "meters_only = deviceStatusV1_zero\<lparr>deviceStatusV1_Meters := [meter_reading]\<rparr>"

definition relay_and_meter_body :: string where
  "relay_and_meter_body =
     ''{\"relays\":[{\"ison\":true}],\"meters\":[{\"power\":2.45,\"total\":615}]}''"

definition relay_and_meter :: deviceStatusV1 where
  "relay_and_meter =
     deviceStatusV1_zero\<lparr>deviceStatusV1_Relays := [relayV1_zero\<lparr>relayV1_IsOn := True\<rparr>],
                         deviceStatusV1_Meters := [meter_reading]\<rparr>"

text \<open>
  Generation 2 plugs: one without a switch, one whose switch has no energy counter, one
  with an energy counter and no temperature sensor, and one with all three.
\<close>

definition no_energy_body :: string where
  "no_energy_body = ''{\"switch:0\":{\"id\":0,\"output\":true}}''"

definition no_energy :: DeviceStatusV2 where
  "no_energy =
     DeviceStatusV2_zero\<lparr>DeviceStatusV2_Switch1 :=
       Some (SwitchStatusV2_zero\<lparr>SwitchStatusV2_Output := True\<rparr>)\<rparr>"

definition energy_counter :: ActiveEnergyV2 where
  "energy_counter = \<lparr>ActiveEnergyV2_Total = f64_const 10250, ActiveEnergyV2_ByMinute = [],
                      ActiveEnergyV2_MinuteTS = 0\<rparr>"

definition no_temperature_body :: string where
  "no_temperature_body =
     ''{\"switch:0\":{\"id\":0,\"output\":true,\"apower\":2.42,\"aenergy\":{\"total\":10250}}}''"

definition no_temperature :: DeviceStatusV2 where
  "no_temperature =
     DeviceStatusV2_zero\<lparr>DeviceStatusV2_Switch1 :=
       Some (SwitchStatusV2_zero\<lparr>SwitchStatusV2_Output := True,
               SwitchStatusV2_APower := f64_const (242 / 100),
               SwitchStatusV2_AEnergy := Some energy_counter\<rparr>)\<rparr>"

text \<open>
  Echoes of the switching request. No field of either echo record is tagged \<open>output\<close>,
  so the decoder skips that key and leaves \<open>IsOn\<close> at its zero value.
\<close>

definition ison_off_body :: string where
  "ison_off_body = ''{\"ison\":false}''"

definition ison_on_body :: string where
  "ison_on_body = ''{\"ison\":true}''"

definition output_on_body :: string where
  "output_on_body = ''{\"output\":true}''"

definition relayV1_on :: relayV1 where
  "relayV1_on = relayV1_zero\<lparr>relayV1_IsOn := True\<rparr>"

definition SwitchStateV2_on :: SwitchStateV2 where
  "SwitchStateV2_on = SwitchStateV2_zero\<lparr>SwitchStateV2_IsOn := True\<rparr>"

text \<open>The command line \<open>-A 2001:db8::1\<close>.\<close>

definition ipv6_config :: config where
  "ipv6_config = config_zero\<lparr>ip := ''2001:db8::1''\<rparr>"

definition json_config :: config where
  "json_config = config_zero\<lparr>jsonFormat := True\<rparr>"

definition metrics_config :: config where
  "metrics_config = config_zero\<lparr>choriaFormat := True, labels := [(''location'', ''office'')]\<rparr>"

section \<open>Rounding to the nearest double\<close>

text \<open>
  \<open>ilog2\<close> is the binary exponent of a positive rational; rounding moves a value by at
  most half a unit in the last place, that is by a relative \<open>2 ^ 53\<close>-th in the normal
  range.
\<close>

lemma ilog2_bounds:
  assumes "0 < x"
  shows "2 powi (ilog2 x) \<le> x" and "x < 2 powi (ilog2 x + 1)"
proof -
  obtain a b where q: "quotient_of x = (a, b)" by (cases "quotient_of x")
  have b: "0 < b" using q by (rule quotient_of_denom_pos)
  have x: "x = of_int a / of_int b" using q by (rule quotient_of_div)
  have a: "0 < a" using assms b x by (simp add: zero_less_divide_iff)
  define la lb where "la = bitlen a" and "lb = bitlen b"
  have la: "1 \<le> la" and lb: "1 \<le> lb"
    using a b bitlen_eq_zero_iff[of a] bitlen_eq_zero_iff[of b] bitlen_nonneg[of a] bitlen_nonneg[of b]
    by (auto simp: la_def lb_def)
  from bitlen_bounds[OF a] have a1: "(2::int) ^ nat (la - 1) \<le> a" and a2: "a < 2 ^ nat la"
    by (simp_all add: la_def)
  from bitlen_bounds[OF b] have b1: "(2::int) ^ nat (lb - 1) \<le> b" and b2: "b < 2 ^ nat lb"
    by (simp_all add: lb_def)
  have ra1: "(2::rat) powi (la - 1) \<le> of_int a"
  proof -
    have "(of_int ((2::int) ^ nat (la - 1)) :: rat) \<le> of_int a" using a1 by (simp only: of_int_le_iff)
    then show ?thesis using la by (simp add: power_int_def)
  qed
  have ra2: "(of_int a :: rat) < 2 powi la"
  proof -
    have "(of_int a :: rat) < of_int ((2::int) ^ nat la)" using a2 by (simp only: of_int_less_iff)
    then show ?thesis using la by (simp add: power_int_def)
  qed
  have rb1: "(2::rat) powi (lb - 1) \<le> of_int b"
  proof -
    have "(of_int ((2::int) ^ nat (lb - 1)) :: rat) \<le> of_int b" using b1 by (simp only: of_int_le_iff)
    then show ?thesis using lb by (simp add: power_int_def)
  qed
  have rb2: "(of_int b :: rat) < 2 powi lb"
  proof -
    have "(of_int b :: rat) < of_int ((2::int) ^ nat lb)" using b2 by (simp only: of_int_less_iff)
    then show ?thesis using lb by (simp add: power_int_def)
  qed
  have bpos: "(0::rat) < of_int b" using b by simp
  have lo: "(2::rat) powi (la - lb - 1) \<le> x"
  proof -
    have "(2::rat) powi (la - lb - 1) * of_int b \<le> 2 powi (la - lb - 1) * 2 powi lb"
      using rb2 by (intro mult_left_mono) (auto simp: less_imp_le)
    also have "\<dots> = 2 powi (la - 1)" by (simp flip: power_int_add)
    also have "\<dots> \<le> of_int a" by (rule ra1)
    finally show ?thesis using bpos by (simp add: x pos_le_divide_eq)
  qed
  have hi: "x < (2::rat) powi (la - lb + 1)"
  proof -
    have "(of_int a :: rat) < 2 powi la" by (rule ra2)
    also have "\<dots> = 2 powi (la - lb + 1) * 2 powi (lb - 1)" by (simp flip: power_int_add)
    also have "\<dots> \<le> 2 powi (la - lb + 1) * of_int b"
      using rb1 by (intro mult_left_mono) auto
    finally show ?thesis using bpos by (simp add: x pos_divide_less_eq)
  qed
  have e: "ilog2 x = (if 2 powi (la - lb) \<le> x then la - lb else la - lb - 1)"
    by (simp add: ilog2_def q la_def lb_def Let_def)
  show "2 powi (ilog2 x) \<le> x" using lo by (simp add: e)
  show "x < 2 powi (ilog2 x + 1)" using hi by (simp add: e not_le)
qed

lemma round_even_error: "\<bar>of_int (round_even y) - y\<bar> \<le> 1 / 2"
proof -
  have "of_int \<lfloor>y\<rfloor> \<le> y" "y < of_int \<lfloor>y\<rfloor> + 1" by linarith+
  then show ?thesis by (auto simp: round_even_def Let_def abs_le_iff)
qed

lemma quantum_pos: "0 < quantum x"
  by (simp add: quantum_def zero_less_power_int)

lemma rne_error:
  "\<bar>rne x - x\<bar> \<le> quantum x / 2"
proof (cases "x = 0")
  case True
  then show ?thesis using quantum_pos[of x] by (simp add: rne_def)
next
  case False
  define q where "q = quantum x"
  have q: "0 < q" by (simp add: q_def quantum_pos)
  have "rne x - x = (of_int (round_even (x / q)) - x / q) * q"
    using q False by (simp add: rne_def q_def[symmetric] left_diff_distrib)
  then have "\<bar>rne x - x\<bar> = \<bar>of_int (round_even (x / q)) - x / q\<bar> * q"
    using q by (simp add: abs_mult)
  also have "\<dots> \<le> (1 / 2) * q"
    using round_even_error[of "x / q"] q by (intro mult_right_mono) auto
  finally show ?thesis by (simp add: q_def)
qed

lemma rne_relative_error:
  assumes "2 powi (- 1022) \<le> x"
  shows "\<bar>rne x - x\<bar> \<le> x / 2 ^ 53"
proof -
  have pos: "0 < x" using assms zero_less_power_int[of "2::rat" "- 1022"] by linarith
  have "(2::rat) powi (- 1022) < 2 powi (ilog2 x + 1)"
    using assms ilog2_bounds(2)[OF pos] by linarith
  then have "- 1022 < ilog2 x + 1"
    using power_int_increasing[of "ilog2 x + 1" "- 1022" "2::rat"] by (cases "- 1022 < ilog2 x + 1") auto
  then have "quantum x = 2 powi (ilog2 x - 52)" by (simp add: quantum_def max_def)
  also have "\<dots> = 2 powi (ilog2 x) * 2 powi (- 52)"
    using power_int_add[of "2::rat" "ilog2 x" "- 52"] by simp
  also have "\<dots> \<le> x * 2 powi (- 52)"
    using ilog2_bounds(1)[OF pos] by (intro mult_right_mono) auto
  finally have "quantum x / 2 \<le> x * 2 powi (- 52) / 2" by simp
  also have "\<dots> = x / 2 ^ 53"
    by (simp add: power_int_minus inverse_eq_divide)
  finally show ?thesis using rne_error[of x] by linarith
qed


lemma ilog2_unique:
  assumes "2 powi e \<le> x" and "x < 2 powi (e + 1)"
  shows "ilog2 x = e"
proof -
  have pos: "0 < x" using assms(1) zero_less_power_int[of "2::rat" e] by linarith
  note b = ilog2_bounds[OF pos]
  have "(2::rat) powi e < 2 powi (ilog2 x + 1)" using assms(1) b(2) by linarith
  then have 1: "e < ilog2 x + 1"
    using power_int_increasing[of "ilog2 x + 1" e "2::rat"] by (cases "e < ilog2 x + 1") auto
  have "(2::rat) powi (ilog2 x) < 2 powi (e + 1)" using assms(2) b(1) by linarith
  then have 2: "ilog2 x < e + 1"
    using power_int_increasing[of "e + 1" "ilog2 x" "2::rat"] by (cases "ilog2 x < e + 1") auto
  from 1 2 show ?thesis by linarith
qed

lemma rne_eval:
  assumes "2 powi e \<le> x" and "x < 2 powi (e + 1)" and "- 1022 \<le> e"
  shows "rne x = of_int (round_even (x / 2 powi (e - 52))) * 2 powi (e - 52)"
proof -
  have pos: "0 < x" using assms(1) zero_less_power_int[of "2::rat" e] by linarith
  have "ilog2 x = e" using assms(1,2) by (rule ilog2_unique)
  then have "quantum x = 2 powi (e - 52)" using assms(3) by (simp add: quantum_def max_def)
  then show ?thesis using pos by (simp add: rne_def)
qed

lemma round_even_of_int: "round_even (of_int n) = n"
  by (simp add: round_even_def)

lemma round_even_divide:
  assumes "0 < b"
  shows "round_even (of_int a / of_int b) =
           (let f = a div b; r = a mod b
            in if 2 * r < b then f else if b < 2 * r then f + 1
               else if even f then f else f + 1)"
proof -
  have f: "\<lfloor>(of_int a / of_int b :: rat)\<rfloor> = a div b" by (rule floor_divide_of_int_eq)
  have "(of_int a :: rat) = of_int (a div b * b + a mod b)" by simp
  then have "(of_int a :: rat) = of_int (a div b) * of_int b + of_int (a mod b)"
    by (simp only: of_int_add of_int_mult)
  then have r: "(of_int a / of_int b :: rat) - of_int (a div b) = of_int (a mod b) / of_int b"
    using assms by (simp add: field_simps)
  have lt: "(of_int (a mod b) / of_int b :: rat) < 1 / 2 \<longleftrightarrow> 2 * (a mod b) < b"
  proof -
    have "(of_int (a mod b) / of_int b :: rat) < 1 / 2 \<longleftrightarrow> (of_int (2 * (a mod b)) :: rat) < of_int b"
      using assms by (simp add: field_simps)
    then show ?thesis by (simp only: of_int_less_iff)
  qed
  have gt: "1 / 2 < (of_int (a mod b) / of_int b :: rat) \<longleftrightarrow> b < 2 * (a mod b)"
  proof -
    have "1 / 2 < (of_int (a mod b) / of_int b :: rat) \<longleftrightarrow> (of_int b :: rat) < of_int (2 * (a mod b))"
      using assms by (simp add: field_simps)
    then show ?thesis by (simp only: of_int_less_iff)
  qed
  show ?thesis
    unfolding round_even_def Let_def f r lt gt ..
qed

lemma round_even_numeral:
  "round_even (numeral a / numeral b) =
     (let f = numeral a div numeral b :: int; r = numeral a mod numeral b :: int
      in if 2 * r < numeral b then f else if numeral b < 2 * r then f + 1
         else if even f then f else f + 1)"
  using round_even_divide[of "numeral b" "numeral a"] by simp

lemma round_even_numeral_int: "round_even (numeral n) = numeral n"
  using round_even_of_int[of "numeral n"] by simp

text \<open>
  The doubles of this development: the constants \<open>1\<close>, \<open>1000\<close> and
  \<open>0.000016666666666666667\<close>, the reading \<open>2.45\<close>, the counter \<open>615\<close> and its product with
  the constant.
\<close>

lemma rne_1:
  "rne 1 =
     1"
proof -
  have a: "(1 :: rat) / 2 powi (0 - 52) =
             4503599627370496"
    by (simp add: power_int_minus)
  have b: "round_even (4503599627370496) =
             4503599627370496"
    by (simp add: round_even_numeral round_even_numeral_int Let_def)
  have "rne 1 =
          of_int (round_even (1 / 2 powi (0 - 52))) * 2 powi (0 - 52)"
    by (rule rne_eval) (simp_all add: power_int_minus)
  then show ?thesis unfolding a b by (simp add: power_int_minus)
qed

lemma rne_1000:
  "rne 1000 =
     1000"
proof -
  have a: "(1000 :: rat) / 2 powi (9 - 52) =
             8796093022208000"
    by (simp add: power_int_minus)
  have b: "round_even (8796093022208000) =
             8796093022208000"
    by (simp add: round_even_numeral round_even_numeral_int Let_def)
  have "rne 1000 =
          of_int (round_even (1000 / 2 powi (9 - 52))) * 2 powi (9 - 52)"
    by (rule rne_eval) (simp_all add: power_int_minus)
  then show ?thesis unfolding a b by (simp add: power_int_minus)
qed

lemma rne_kwh:
  "rne (16666666666666667 / 1000000000000000000000) =
     2459565876494607 / 147573952589676412928"
proof -
  have a: "(16666666666666667 / 1000000000000000000000 :: rat) / 2 powi (- 16 - 52) =
             2345624805922133380245829451776 / 476837158203125"
    by (simp add: power_int_minus)
  have b: "round_even (2345624805922133380245829451776 / 476837158203125) =
             4919131752989214"
    by (simp add: round_even_numeral round_even_numeral_int Let_def)
  have "rne (16666666666666667 / 1000000000000000000000) =
          of_int (round_even (16666666666666667 / 1000000000000000000000 / 2 powi (- 16 - 52))) * 2 powi (- 16 - 52)"
    by (rule rne_eval) (simp_all add: power_int_minus)
  then show ?thesis unfolding a b by (simp add: power_int_minus)
qed

lemma rne_245:
  "rne (49 / 20) =
     2758454771764429 / 1125899906842624"
proof -
  have a: "(49 / 20 :: rat) / 2 powi (1 - 52) =
             27584547717644288 / 5"
    by (simp add: power_int_minus)
  have b: "round_even (27584547717644288 / 5) =
             5516909543528858"
    by (simp add: round_even_numeral round_even_numeral_int Let_def)
  have "rne (49 / 20) =
          of_int (round_even (49 / 20 / 2 powi (1 - 52))) * 2 powi (1 - 52)"
    by (rule rne_eval) (simp_all add: power_int_minus)
  then show ?thesis unfolding a b by (simp add: power_int_minus)
qed

lemma rne_615:
  "rne 615 =
     615"
proof -
  have a: "(615 :: rat) / 2 powi (9 - 52) =
             5409597208657920"
    by (simp add: power_int_minus)
  have b: "round_even (5409597208657920) =
             5409597208657920"
    by (simp add: round_even_numeral round_even_numeral_int Let_def)
  have "rne 615 =
          of_int (round_even (615 / 2 powi (9 - 52))) * 2 powi (9 - 52)"
    by (rule rne_eval) (simp_all add: power_int_minus)
  then show ?thesis unfolding a b by (simp add: power_int_minus)
qed

lemma rne_615_kwh:
  "rne (1512633014044183305 / 147573952589676412928) =
     5908722711110091 / 576460752303423488"
proof -
  have a: "(1512633014044183305 / 147573952589676412928 :: rat) / 2 powi (- 7 - 52) =
             1512633014044183305 / 256"
    by (simp add: power_int_minus)
  have b: "round_even (1512633014044183305 / 256) =
             5908722711110091"
    by (simp add: round_even_numeral round_even_numeral_int Let_def)
  have "rne (1512633014044183305 / 147573952589676412928) =
          of_int (round_even (1512633014044183305 / 147573952589676412928 / 2 powi (- 7 - 52))) * 2 powi (- 7 - 52)"
    by (rule rne_eval) (simp_all add: power_int_minus)
  then show ?thesis unfolding a b by (simp add: power_int_minus)
qed

lemma rne_0: "rne 0 = 0"
  by (simp add: rne_def)

lemma f64_const_kwh:
  "f64_const (16666666666666667 / 1000000000000000000000) =
     Finite False (2459565876494607 / 147573952589676412928)"
  by (simp add: f64_const_def f64_round_def rne_kwh Let_def)

lemma kwh_bound:
  fixes n a v :: rat
  assumes n: "0 \<le> n"
    and a: "\<bar>a - n\<bar> \<le> n / 2 ^ 53"
    and v: "\<bar>v - a * (2459565876494607 / 147573952589676412928)\<bar>
              \<le> a * (2459565876494607 / 147573952589676412928) / 2 ^ 53"
  shows "\<bar>v - n / 60000\<bar> \<le> n / 60000 / 2 ^ 51"
proof -
  have a1: "a \<le> n + n / 9007199254740992" and a2: "n - n / 9007199254740992 \<le> a"
    using a unfolding abs_le_iff by auto
  have v1: "v \<le> a * (2459565876494607 / 147573952589676412928)
                + a * (2459565876494607 / 147573952589676412928) / 9007199254740992"
   and v2: "a * (2459565876494607 / 147573952589676412928)
                - a * (2459565876494607 / 147573952589676412928) / 9007199254740992 \<le> v"
    using v unfolding abs_le_iff by auto
  have "v - n / 60000 \<le> n / 60000 / 2251799813685248"
    using n a1 a2 v1 v2 by linarith
  moreover have "- (v - n / 60000) \<le> n / 60000 / 2251799813685248"
    using n a1 a2 v1 v2 by linarith
  ultimately show ?thesis unfolding abs_le_iff by simp
qed

lemma kwh_within_tolerance:
  fixes t :: "64 word"
  defines "kwh \<equiv> f64_mul (float64_of_int64 t) (f64_const (16666666666666667 / 1000000000000000000000))"
  shows "is_finite kwh \<and>
         \<bar>f64_value kwh - of_int (sint t) / 60000\<bar> \<le> \<bar>of_int (sint t) / 60000\<bar> / 2 ^ 51"
proof (cases "sint t = 0")
  case True
  then show ?thesis
    by (simp add: kwh_def float64_of_int64_def f64_const_kwh f64_round_def rne_0 Let_def)
next
  case False
  define n :: rat where "n = of_int \<bar>sint t\<bar>"
  define a where "a = rne n"
  define cd :: rat where "cd = 2459565876494607 / 147573952589676412928"
  define v where "v = rne (a * cd)"
  have "\<bar>sint t\<bar> \<le> 2 ^ 63"
    using sint_ge[of t] sint_lt[of t] by simp
  then have "n \<le> of_int (2 ^ 63)" unfolding n_def by (simp only: of_int_le_iff)
  then have n_hi: "n \<le> 2 ^ 63" by simp
  have "1 \<le> \<bar>sint t\<bar>" using False by linarith
  then have "(of_int 1 :: rat) \<le> n" unfolding n_def by (simp only: of_int_le_iff)
  then have n_lo: "1 \<le> n" by simp
  have a_err: "\<bar>a - n\<bar> \<le> n / 2 ^ 53"
  proof -
    have "(2::rat) powi (- 1022) \<le> 1" by (simp add: power_int_minus)
    then have "2 powi (- 1022) \<le> n" using n_lo by linarith
    then show ?thesis unfolding a_def by (rule rne_relative_error)
  qed
  have a1: "a \<le> n + n / 9007199254740992" and a2: "n - n / 9007199254740992 \<le> a"
    using a_err unfolding abs_le_iff by auto
  have a_lo: "1 / 2 \<le> a" using a2 n_lo by linarith
  have n_hi': "n \<le> 9223372036854775808" using n_hi by simp
  have a_hi: "a \<le> 18446744073709551616" using a1 n_hi' n_lo by linarith
  have p_lo: "2 powi (- 1022) \<le> a * cd"
  proof -
    have "(2::rat) powi (- 1022) \<le> 1 / 2 * cd" by (simp add: cd_def power_int_minus)
    also have "\<dots> \<le> a * cd" using a_lo by (intro mult_right_mono) (simp_all add: cd_def)
    finally show ?thesis .
  qed
  have v_err: "\<bar>v - a * cd\<bar> \<le> a * cd / 2 ^ 53"
    unfolding v_def using p_lo by (rule rne_relative_error)
  have p_hi: "a * cd \<le> 18446744073709551616"
  proof -
    have "a * cd \<le> a * 1" using a_lo by (intro mult_left_mono) (simp_all add: cd_def)
    then show ?thesis using a_hi by simp
  qed
  have v1: "v \<le> a * cd + a * cd / 9007199254740992"
    using v_err unfolding abs_le_iff by auto
  have p_pos: "0 \<le> a * cd" using a_lo by (simp add: cd_def)
  have v_hi': "v \<le> 36893488147419103232" using v1 p_hi p_pos by linarith
  have "(36893488147419103232 :: rat) < 2 ^ 1024" by simp
  then have v_hi: "\<not> 2 ^ 1024 \<le> v" using v_hi' by linarith
  have "(18446744073709551616 :: rat) < 2 ^ 1024" by simp
  then have a_fin: "\<not> 2 ^ 1024 \<le> a" using a_hi by linarith
  have fa: "float64_of_int64 t = Finite (sint t < 0) a"
    unfolding float64_of_int64_def f64_round_def Let_def n_def[symmetric] a_def[symmetric]
    using a_fin by (simp only: if_False)
  have fk: "f64_mul (Finite (sint t < 0) a) (Finite False cd) = Finite (sint t < 0) v"
    unfolding f64_mul.simps f64_round_def Let_def v_def[symmetric]
    using v_hi by (simp only: if_False simp_thms)
  have kwh: "kwh = Finite (sint t < 0) v"
    unfolding kwh_def f64_const_kwh fa cd_def[symmetric] by (rule fk)
  have main: "\<bar>v - n / 60000\<bar> \<le> n / 60000 / 2 ^ 51"
    using n_lo a_err v_err unfolding cd_def by (intro kwh_bound[of n a v]) simp_all
  have rhs: "\<bar>of_int (sint t) / 60000 :: rat\<bar> = n / 60000"
    by (simp add: n_def)
  have lhs: "\<bar>f64_value kwh - of_int (sint t) / 60000\<bar> = \<bar>v - n / 60000\<bar>"
  proof (cases "sint t < 0")
    case True
    then have "f64_value kwh - of_int (sint t) / 60000 = - (v - n / 60000)"
      by (simp add: kwh n_def)
    then show ?thesis by (simp only: abs_minus_cancel)
  next
    case False
    then have "f64_value kwh - of_int (sint t) / 60000 = v - n / 60000"
      by (simp add: kwh n_def)
    then show ?thesis by (simp only:)
  qed
  show ?thesis unfolding lhs rhs using main by (simp add: kwh)
qed

lemma f64_const_0: "f64_const 0 = Finite False 0"
  by (simp add: f64_const_def f64_round_def rne_0 Let_def)

lemma f64_const_1: "f64_const 1 = Finite False 1"
  by (simp add: f64_const_def f64_round_def rne_1 Let_def)

lemma f64_const_1000: "f64_const 1000 = Finite False 1000"
  by (simp add: f64_const_def f64_round_def rne_1000 Let_def)

text \<open>Dividing a finite double by the constant \<open>1000\<close> rounds the exact quotient once.\<close>

lemma f64_div_1000: "f64_div (Finite s m) (f64_const 1000) = f64_round s (m / 1000)"
  by (simp add: f64_const_1000)

lemma f64_const_245: "f64_const (49 / 20) = Finite False (2758454771764429 / 1125899906842624)"
  by (simp add: f64_const_def f64_round_def rne_245 Let_def)

lemma float64_of_615: "float64_of_int64 615 = Finite False 615"
  by (simp add: float64_of_int64_def f64_round_def rne_615 Let_def)

lemma kwh_of_615:
  "f64_mul (float64_of_int64 615) (f64_const (16666666666666667 / 1000000000000000000000))
     = Finite False (5908722711110091 / 576460752303423488)"
  by (simp add: float64_of_615 f64_const_kwh f64_round_def rne_615_kwh Let_def)

lemma fmt_f2_power: "fmt_f2 (Finite False (2758454771764429 / 1125899906842624)) = ''2.45''"
  by code_simp

lemma fmt_f2_kwh: "fmt_f2 (Finite False (5908722711110091 / 576460752303423488)) = ''0.01''"
  by code_simp

lemma is_on_eq_1: "f64_eq (if b then f64_const 1 else f64_const 0) (f64_const 1) = b"
  by (simp add: f64_const_0 f64_const_1)

section \<open>What the adapters send\<close>

lemma LastIndexByte_None: "LastIndexByte s c = None \<longleftrightarrow> c \<notin> set s"
  by (induction s) (auto split: option.splits)

lemma Hostname_plain:
  assumes "CHR '':'' \<notin> set (Host a)"
    and "\<not> (HasPrefix (Host a) ''['' \<and> HasSuffix (Host a) '']'')"
  shows "Hostname a = Host a"
proof -
  have "LastIndexByte (Host a) CHR '':'' = None"
    using assms(1) by (simp add: LastIndexByte_None)
  then show ?thesis using assms(2) by (auto simp: Hostname_def splitHostPort_def)
qed

text \<open>
  A port is dropped, brackets around an IPv6 literal are removed, and a literal without
  brackets loses what follows its last colon when that is all digits.
\<close>

lemma Hostname_examples:
  "Hostname (plug_address\<lparr>Host := ''192.168.1.10:8080''\<rparr>) = ''192.168.1.10''"
  "Hostname (plug_address\<lparr>Host := ''[fe80::1]:80''\<rparr>) = ''fe80::1''"
  "Hostname (plug_address\<lparr>Host := ''2001:db8::1''\<rparr>) = ''2001:db8:''"
  "Hostname (plug_address\<lparr>Host := ''fe80::abcd''\<rparr>) = ''fe80::abcd''"
  by (simp_all add: Hostname_def splitHostPort_def validOptionalPort_def HasPrefix_def
      HasSuffix_def plug_address_def)

lemma shellyPlug_get_sent:
  "sent (snd (shellyPlug_get U a p q net)) =
     sent net @ [\<lparr>request_URL = ''http://'' @ Hostname a @ ''/'' @ p, request_QueryParam = q,
                  request_UserInfo =
                    (case User a of None \<Rightarrow> None
                     | Some u \<Rightarrow> Some (Username u, fst (Password u))),
                  request_DisableWarn = (User a \<noteq> None)\<rparr>]"
  by (simp add: shellyPlug_get_def client_Get_def resty_R_def SetBasicAuth_def SetQueryParams_def
      Let_def split: option.splits sum.splits prod.splits)

lemma shellyPlugV1_get_sent:
  "sent (snd (shellyPlugV1_get U a p q net)) =
     sent net @ [\<lparr>request_URL = ''http://'' @ Hostname a @ ''/'' @ p, request_QueryParam = q,
                  request_UserInfo =
                    (case User a of None \<Rightarrow> None
                     | Some u \<Rightarrow> Some (Username u, fst (Password u))),
                  request_DisableWarn = (User a \<noteq> None)\<rparr>]"
  by (simp add: shellyPlugV1_get_def client_Get_def resty_R_def SetBasicAuth_def SetQueryParams_def
      Let_def split: option.splits sum.splits prod.splits)

lemma shellyPlugV2_get_sent:
  "sent (snd (shellyPlugV2_get U a p q net)) =
     sent net @ [\<lparr>request_URL = ''http://'' @ Hostname a @ ''/'' @ p, request_QueryParam = q,
                  request_UserInfo =
                    (case User a of None \<Rightarrow> None
                     | Some u \<Rightarrow> Some (Username u, fst (Password u))),
                  request_DisableWarn = (User a \<noteq> None)\<rparr>]"
  by (simp add: shellyPlugV2_get_def client_Get_def resty_R_def SetBasicAuth_def SetQueryParams_def
      log_Printf_def Let_def split: option.splits sum.splits prod.splits)

lemma LastIndexByte_append:
  "c \<notin> set ys \<Longrightarrow> LastIndexByte (xs @ c # ys) c = Some (length xs)"
proof (induction xs)
  case Nil
  then have "LastIndexByte ys c = None" by (simp add: LastIndexByte_None)
  then show ?case by simp
next
  case (Cons x xs)
  then show ?case by simp
qed

text \<open>A port after a host without colons is dropped.\<close>

lemma Hostname_host_port:
  assumes "CHR '':'' \<notin> set h"
    and "\<not> (HasPrefix h ''['' \<and> HasSuffix h '']'')"
    and "list_all (\<lambda>b. b \<in> set ''0123456789'') port"
  shows "Hostname (a\<lparr>Host := h @ CHR '':'' # port\<rparr>) = h"
proof -
  have "CHR '':'' \<notin> set ''0123456789''" by simp
  then have "CHR '':'' \<notin> set port"
    using assms(3) unfolding list_all_iff by blast
  then have l: "LastIndexByte (h @ CHR '':'' # port) CHR '':'' = Some (length h)"
    by (rule LastIndexByte_append)
  have v: "validOptionalPort (CHR '':'' # port)"
    using assms(3) by (simp add: validOptionalPort_def)
  have "splitHostPort (h @ CHR '':'' # port) = (h, port)"
    unfolding splitHostPort_def l using v assms(2)
    by (cases "HasPrefix h ''[''") simp_all
  then show ?thesis by (simp add: Hostname_def)
qed

text \<open>
  Every fetch sends exactly one request. Its URL is \<open>http://\<close>, what \<open>Hostname\<close> returns
  for the configured address, a slash and the path; its query parameters are the ones
  supplied.
\<close>

lemma get_request:
  "(\<exists>rq. sent (snd (shellyPlugV1_get U1 a p q net)) = sent net @ [rq]
         \<and> request_URL rq = ''http://'' @ Hostname a @ ''/'' @ p \<and> request_QueryParam rq = q)
   \<and> (\<exists>rq. sent (snd (shellyPlugV2_get U2 a p q net)) = sent net @ [rq]
         \<and> request_URL rq = ''http://'' @ Hostname a @ ''/'' @ p \<and> request_QueryParam rq = q)
   \<and> (\<exists>rq. sent (snd (shellyPlug_get U0 a p q net)) = sent net @ [rq]
         \<and> request_URL rq = ''http://'' @ Hostname a @ ''/'' @ p \<and> request_QueryParam rq = q)"
  by (simp add: shellyPlugV1_get_sent shellyPlugV2_get_sent shellyPlug_get_sent)

lemma shellyPlugV1_TurnOn_sent:
  "snd (shellyPlugV1_TurnOn U a net) = snd (shellyPlugV1_get U a ''relay/0'' [(''turn'', ''on'')] net)"
  by (simp add: shellyPlugV1_TurnOn_def split: prod.splits sum.splits)

lemma shellyPlugV2_TurnOn_sent:
  "snd (shellyPlugV2_TurnOn U a net) = snd (shellyPlugV2_get U a ''relay/0'' [(''turn'', ''on'')] net)"
  by (simp add: shellyPlugV2_TurnOn_def split: prod.splits sum.splits)

lemma Hostname_ipv6_config: "Hostname (deviceUrl ipv6_config) = ''2001:db8:''"
  by (simp add: Hostname_def splitHostPort_def validOptionalPort_def HasPrefix_def HasSuffix_def
      deviceUrl_def ipv6_config_def config_zero_def)

text \<open>
  C6. For the address that the command line \<open>-A 2001:db8::1\<close> configures, whose host is
  \<open>2001:db8::1\<close>, switching on sends its one request to \<open>http://2001:db8:/relay/0\<close> in
  both generations: the host in the URL is not the host of the address.
\<close>

theorem ipv6_host_is_cut:
  "Host (deviceUrl ipv6_config) = ''2001:db8::1''
   \<and> sent (snd (shellyPlugV1_TurnOn (decode_as ison_on_body relayV1_on) (deviceUrl ipv6_config)
                  (idle_net ison_on_body)))
       = [\<lparr>request_URL = ''http://2001:db8:/relay/0'', request_QueryParam = [(''turn'', ''on'')],
           request_UserInfo = None, request_DisableWarn = False\<rparr>]
   \<and> sent (snd (shellyPlugV2_TurnOn (decode_as ison_on_body SwitchStateV2_on)
                  (deviceUrl ipv6_config) (idle_net ison_on_body)))
       = [\<lparr>request_URL = ''http://2001:db8:/relay/0'', request_QueryParam = [(''turn'', ''on'')],
           request_UserInfo = None, request_DisableWarn = False\<rparr>]"
proof -
  have h: "Host (deviceUrl ipv6_config) = ''2001:db8::1''"
    and u: "User (deviceUrl ipv6_config) = None"
    by (simp_all add: deviceUrl_def ipv6_config_def config_zero_def)
  show ?thesis
    using h u
    by (simp add: shellyPlugV1_TurnOn_sent shellyPlugV2_TurnOn_sent shellyPlugV1_get_sent
        shellyPlugV2_get_sent Hostname_ipv6_config idle_net_def)
qed

text \<open>
  C7. Every adapter attaches HTTP Basic Authentication to its request exactly when the
  configured address carries user information, with that user name and password; without
  user information the request carries none. The address built from the command line
  carries user information exactly when both user name and password are non-empty.
\<close>

theorem get_basic_auth:
  "(\<exists>rq. sent (snd (shellyPlugV1_get U1 a p q net)) = sent net @ [rq]
         \<and> request_UserInfo rq =
             (case User a of None \<Rightarrow> None | Some u \<Rightarrow> Some (Username u, fst (Password u))))
   \<and> (\<exists>rq. sent (snd (shellyPlugV2_get U2 a p q net)) = sent net @ [rq]
         \<and> request_UserInfo rq =
             (case User a of None \<Rightarrow> None | Some u \<Rightarrow> Some (Username u, fst (Password u))))
   \<and> (\<exists>rq. sent (snd (shellyPlug_get U0 a p q net)) = sent net @ [rq]
         \<and> request_UserInfo rq =
             (case User a of None \<Rightarrow> None | Some u \<Rightarrow> Some (Username u, fst (Password u))))
   \<and> User (deviceUrl cfg) =
         (if user cfg \<noteq> [] \<and> pass cfg \<noteq> [] then Some (UserPassword (user cfg) (pass cfg))
          else None)
   \<and> Username (UserPassword name secret) = name
   \<and> fst (Password (UserPassword name secret)) = secret"
  by (simp add: shellyPlugV1_get_sent shellyPlugV2_get_sent shellyPlug_get_sent deviceUrl_def
      Username_def Password_def UserPassword_def)

theorem get_basic_auth_witness:
  "(\<exists>rq. sent (snd (shellyPlugV2_get (decode_as [] SwitchStateV2_zero) secured_address
                        ''relay/0'' [(''turn'', ''off'')] (idle_net []))) = [rq]
         \<and> request_UserInfo rq = Some (''admin'', ''secret''))
   \<and> (\<exists>rq. sent (snd (shellyPlugV2_get (decode_as [] SwitchStateV2_zero) plug_address
                        ''relay/0'' [(''turn'', ''off'')] (idle_net []))) = [rq]
         \<and> request_UserInfo rq = None)"
  using get_basic_auth [of "decode_as [] relayV1_zero" secured_address "''relay/0''"
      "[(''turn'', ''off'')]" "idle_net []" "decode_as [] SwitchStateV2_zero"
      "decode_as [] relayV1_zero" config_zero "''admin''" "''secret''"]
    get_basic_auth [of "decode_as [] relayV1_zero" plug_address "''relay/0''"
      "[(''turn'', ''off'')]" "idle_net []" "decode_as [] SwitchStateV2_zero"
      "decode_as [] relayV1_zero" config_zero "''admin''" "''secret''"]
  by (auto simp: secured_address_def plug_address_def idle_net_def)

text \<open>
  C8. Constructing a client of either generation from an address with an empty host
  returns the error \<open>invalid address\<close> and leaves the network untouched, so that no
  request is sent; from an address with a non-empty host it returns the client.
\<close>

theorem new_plug_checks_host:
  "(Host address = [] \<longrightarrow>
      newShellyV1Plug address net = (Inl (Errorf ''invalid address''), net)
      \<and> newShellyV2Plug address net = (Inl (Errorf ''invalid address''), net))
   \<and> (Host address \<noteq> [] \<longrightarrow>
      newShellyV1Plug address net = (Inr (shellyPlugV1 address), net)
      \<and> newShellyV2Plug address net = (Inr (shellyPlugV2 address), net))"
  by (simp add: newShellyV1Plug_def newShellyV2Plug_def)

theorem new_plug_checks_host_witness:
  "Host no_address = [] \<and> Host plug_address \<noteq> []
   \<and> newShellyV1Plug no_address (idle_net []) = (Inl (Errorf ''invalid address''), idle_net [])
   \<and> newShellyV2Plug no_address (idle_net []) = (Inl (Errorf ''invalid address''), idle_net [])
   \<and> sent (snd (newShellyV2Plug no_address (idle_net []))) = []
   \<and> newShellyV1Plug plug_address (idle_net []) = (Inr (shellyPlugV1 plug_address), idle_net [])
   \<and> newShellyV2Plug plug_address (idle_net []) = (Inr (shellyPlugV2 plug_address), idle_net [])"
  using new_plug_checks_host [of no_address "idle_net []"]
    new_plug_checks_host [of plug_address "idle_net []"]
  by (simp add: no_address_def plug_address_def idle_net_def)

section \<open>The example device answers every fetch\<close>

lemma shellyPlugV1_get_idle:
  "fst (shellyPlugV1_get (decode_as body v) a p q (idle_net body)) = Inr v"
  by (simp add: shellyPlugV1_get_def client_Get_def idle_net_def respond_def decode_as_def
      Let_def split: option.splits prod.splits)

lemma shellyPlugV2_get_idle:
  "fst (shellyPlugV2_get (decode_as body v) a p q (idle_net body)) = Inr v"
  by (simp add: shellyPlugV2_get_def client_Get_def idle_net_def respond_def decode_as_def
      Let_def split: option.splits prod.splits)

lemma shellyPlugV1_Status_get:
  "shellyPlugV1_Status U a net = shellyPlugV1_get U a ''status'' [] net"
  by (simp add: shellyPlugV1_Status_def split: prod.splits sum.splits)

lemma shellyPlugV2_Status_get:
  "shellyPlugV2_Status U a net = shellyPlugV2_get U a ''rpc/Shelly.GetStatus'' [] net"
  by (simp add: shellyPlugV2_Status_def split: prod.splits sum.splits)

lemma shellyPlugV1_Status_idle:
  "shellyPlugV1_Status (decode_as body v) a (idle_net body) =
     (Inr v, snd (shellyPlugV1_Status (decode_as body v) a (idle_net body)))"
  using shellyPlugV1_get_idle [of body v a "''status''" "[]"]
  by (simp add: shellyPlugV1_Status_get prod_eq_iff)

lemma shellyPlugV2_Status_idle:
  "shellyPlugV2_Status (decode_as body v) a (idle_net body) =
     (Inr v, snd (shellyPlugV2_Status (decode_as body v) a (idle_net body)))"
  using shellyPlugV2_get_idle [of body v a "''rpc/Shelly.GetStatus''" "[]"]
  by (simp add: shellyPlugV2_Status_get prod_eq_iff)

section \<open>Switching\<close>

text \<open>
  C3, as the code has it. Both echo records read the state of the output from the key
  \<open>ison\<close> alone. When the device answers the switching request, \<open>TurnOn\<close> returns the error
  \<open>relay is not on\<close> exactly when the decoded \<open>ison\<close> is false, and \<open>TurnOff\<close> returns the
  error \<open>relay is on\<close> exactly when it is true; otherwise each returns the decoded state
  and no error.
\<close>

theorem turn_checks_ison:
  "(shellyPlugV1_get U1 a ''relay/0'' [(''turn'', ''on'')] net = (Inr r1, net1) \<longrightarrow>
      shellyPlugV1_TurnOn U1 a net =
        (if relayV1_IsOn r1 then ((True, None), net1)
         else ((False, Some (Errorf ''relay is not on'')), net1)))
   \<and> (shellyPlugV1_get U1 a ''relay/0'' [(''turn'', ''off'')] net = (Inr r2, net2) \<longrightarrow>
      shellyPlugV1_TurnOff U1 a net =
        (if relayV1_IsOn r2 then ((True, Some (Errorf ''relay is on'')), net2)
         else ((False, None), net2)))
   \<and> (shellyPlugV2_get U2 a ''relay/0'' [(''turn'', ''on'')] net = (Inr r3, net3) \<longrightarrow>
      shellyPlugV2_TurnOn U2 a net =
        (if SwitchStateV2_IsOn r3 then ((True, None), net3)
         else ((False, Some (Errorf ''relay is not on'')), net3)))
   \<and> (shellyPlugV2_get U2 a ''relay/0'' [(''turn'', ''off'')] net = (Inr r4, net4) \<longrightarrow>
      shellyPlugV2_TurnOff U2 a net =
        (if SwitchStateV2_IsOn r4 then ((True, Some (Errorf ''relay is on'')), net4)
         else ((False, None), net4)))"
  by (simp add: shellyPlugV1_TurnOn_def shellyPlugV1_TurnOff_def shellyPlugV2_TurnOn_def
      shellyPlugV2_TurnOff_def)

theorem turn_checks_ison_witness:
  "fst (shellyPlugV1_TurnOn (decode_as ison_off_body relayV1_zero) plug_address
          (idle_net ison_off_body)) = (False, Some (Errorf ''relay is not on''))
   \<and> fst (shellyPlugV1_TurnOff (decode_as ison_on_body relayV1_on) plug_address
          (idle_net ison_on_body)) = (True, Some (Errorf ''relay is on''))
   \<and> fst (shellyPlugV2_TurnOn (decode_as ison_off_body SwitchStateV2_zero) plug_address
          (idle_net ison_off_body)) = (False, Some (Errorf ''relay is not on''))
   \<and> fst (shellyPlugV2_TurnOff (decode_as ison_on_body SwitchStateV2_on) plug_address
          (idle_net ison_on_body)) = (True, Some (Errorf ''relay is on''))
   \<and> fst (shellyPlugV2_TurnOn (decode_as output_on_body SwitchStateV2_zero) plug_address
          (idle_net output_on_body)) = (False, Some (Errorf ''relay is not on''))"
proof -
  let ?g1 = "shellyPlugV1_get (decode_as ison_off_body relayV1_zero) plug_address ''relay/0''
               [(''turn'', ''on'')] (idle_net ison_off_body)"
  let ?g2 = "shellyPlugV1_get (decode_as ison_on_body relayV1_on) plug_address ''relay/0''
               [(''turn'', ''off'')] (idle_net ison_on_body)"
  let ?g3 = "shellyPlugV2_get (decode_as ison_off_body SwitchStateV2_zero) plug_address
               ''relay/0'' [(''turn'', ''on'')] (idle_net ison_off_body)"
  let ?g4 = "shellyPlugV2_get (decode_as ison_on_body SwitchStateV2_on) plug_address ''relay/0''
               [(''turn'', ''off'')] (idle_net ison_on_body)"
  let ?g5 = "shellyPlugV2_get (decode_as output_on_body SwitchStateV2_zero) plug_address
               ''relay/0'' [(''turn'', ''on'')] (idle_net output_on_body)"
  have g1: "?g1 = (Inr relayV1_zero, snd ?g1)"
    using shellyPlugV1_get_idle [of ison_off_body relayV1_zero] by (simp add: prod_eq_iff)
  have g2: "?g2 = (Inr relayV1_on, snd ?g2)"
    using shellyPlugV1_get_idle [of ison_on_body relayV1_on] by (simp add: prod_eq_iff)
  have g3: "?g3 = (Inr SwitchStateV2_zero, snd ?g3)"
    using shellyPlugV2_get_idle [of ison_off_body SwitchStateV2_zero] by (simp add: prod_eq_iff)
  have g4: "?g4 = (Inr SwitchStateV2_on, snd ?g4)"
    using shellyPlugV2_get_idle [of ison_on_body SwitchStateV2_on] by (simp add: prod_eq_iff)
  have g5: "?g5 = (Inr SwitchStateV2_zero, snd ?g5)"
    using shellyPlugV2_get_idle [of output_on_body SwitchStateV2_zero] by (simp add: prod_eq_iff)
  have s: "\<not> relayV1_IsOn relayV1_zero" "relayV1_IsOn relayV1_on"
    "\<not> SwitchStateV2_IsOn SwitchStateV2_zero" "SwitchStateV2_IsOn SwitchStateV2_on"
    by (simp_all add: relayV1_zero_def relayV1_on_def SwitchStateV2_zero_def SwitchStateV2_on_def)
  have a: "shellyPlugV1_TurnOn (decode_as ison_off_body relayV1_zero) plug_address
             (idle_net ison_off_body) = ((False, Some (Errorf ''relay is not on'')), snd ?g1)"
    using turn_checks_ison [where ?U1.0 = "decode_as ison_off_body relayV1_zero"
        and a = plug_address and net = "idle_net ison_off_body" and ?r1.0 = relayV1_zero
        and ?net1.0 = "snd ?g1"] g1 s
    by simp
  have b: "shellyPlugV1_TurnOff (decode_as ison_on_body relayV1_on) plug_address
             (idle_net ison_on_body) = ((True, Some (Errorf ''relay is on'')), snd ?g2)"
    using turn_checks_ison [where ?U1.0 = "decode_as ison_on_body relayV1_on"
        and a = plug_address and net = "idle_net ison_on_body" and ?r2.0 = relayV1_on
        and ?net2.0 = "snd ?g2"] g2 s
    by simp
  have c: "shellyPlugV2_TurnOn (decode_as ison_off_body SwitchStateV2_zero) plug_address
             (idle_net ison_off_body) = ((False, Some (Errorf ''relay is not on'')), snd ?g3)"
    using turn_checks_ison [where ?U2.0 = "decode_as ison_off_body SwitchStateV2_zero"
        and a = plug_address and net = "idle_net ison_off_body" and ?r3.0 = SwitchStateV2_zero
        and ?net3.0 = "snd ?g3"] g3 s
    by simp
  have d: "shellyPlugV2_TurnOff (decode_as ison_on_body SwitchStateV2_on) plug_address
             (idle_net ison_on_body) = ((True, Some (Errorf ''relay is on'')), snd ?g4)"
    using turn_checks_ison [where ?U2.0 = "decode_as ison_on_body SwitchStateV2_on"
        and a = plug_address and net = "idle_net ison_on_body" and ?r4.0 = SwitchStateV2_on
        and ?net4.0 = "snd ?g4"] g4 s
    by simp
  have e: "shellyPlugV2_TurnOn (decode_as output_on_body SwitchStateV2_zero) plug_address
             (idle_net output_on_body) = ((False, Some (Errorf ''relay is not on'')), snd ?g5)"
    using turn_checks_ison [where ?U2.0 = "decode_as output_on_body SwitchStateV2_zero"
        and a = plug_address and net = "idle_net output_on_body" and ?r3.0 = SwitchStateV2_zero
        and ?net3.0 = "snd ?g5"] g5 s
    by simp
  from a b c d e show ?thesis by simp
qed

text \<open>
  A generation 2 echo that reports the output on through the key \<open>output\<close> only decodes
  to \<open>ison\<close> false: \<open>TurnOff\<close> then returns success.
\<close>

theorem TurnOff_V2_output_on_succeeds:
  "fst (shellyPlugV2_TurnOff (decode_as output_on_body SwitchStateV2_zero) plug_address
          (idle_net output_on_body)) = (False, None)"
proof -
  define net' where
    "net' = snd (shellyPlugV2_get (decode_as output_on_body SwitchStateV2_zero) plug_address
                   ''relay/0'' [(''turn'', ''off'')] (idle_net output_on_body))"
  have g: "shellyPlugV2_get (decode_as output_on_body SwitchStateV2_zero) plug_address ''relay/0''
             [(''turn'', ''off'')] (idle_net output_on_body) = (Inr SwitchStateV2_zero, net')"
    using shellyPlugV2_get_idle [of output_on_body SwitchStateV2_zero]
    by (simp add: prod_eq_iff net'_def)
  show ?thesis
    unfolding shellyPlugV2_TurnOff_def g by (simp add: SwitchStateV2_zero_def)
qed

section \<open>Preconditions of RenderEnergy\<close>

text \<open>
  C4. When the fetched generation 2 status has no switch, \<open>RenderEnergy\<close> returns the
  error \<open>no switch information received\<close>; when it has a switch without the energy
  counter, it returns \<open>no meter information received\<close>. In both cases the sink is left
  as it was: nothing is written.
\<close>

theorem RenderEnergy_V2_precondition:
  assumes "shellyPlugV2_Status U a net = (Inr status, net')"
  shows "(DeviceStatusV2_Switch1 status = None \<longrightarrow>
            shellyPlugV2_RenderEnergy cfg M U a w net =
              (Return (Some (Errorf ''no switch information received'')), w, net'))
         \<and> (\<forall>sw. DeviceStatusV2_Switch1 status = Some sw \<and> SwitchStatusV2_AEnergy sw = None \<longrightarrow>
            shellyPlugV2_RenderEnergy cfg M U a w net =
              (Return (Some (Errorf ''no meter information received'')), w, net'))"
  using assms by (simp add: shellyPlugV2_RenderEnergy_def)

theorem RenderEnergy_V2_precondition_witness:
  "shellyPlugV2_RenderEnergy config_zero encode_fixed (decode_as ''{}'' DeviceStatusV2_zero)
       plug_address [] (idle_net ''{}'')
     = (Return (Some (Errorf ''no switch information received'')), [],
        snd (shellyPlugV2_Status (decode_as ''{}'' DeviceStatusV2_zero) plug_address
               (idle_net ''{}'')))
   \<and> shellyPlugV2_RenderEnergy config_zero encode_fixed (decode_as no_energy_body no_energy)
       plug_address [] (idle_net no_energy_body)
     = (Return (Some (Errorf ''no meter information received'')), [],
        snd (shellyPlugV2_Status (decode_as no_energy_body no_energy) plug_address
               (idle_net no_energy_body)))"
proof -
  have 1: "DeviceStatusV2_Switch1 DeviceStatusV2_zero = None"
    by (simp add: DeviceStatusV2_zero_def)
  have 2: "DeviceStatusV2_Switch1 no_energy
             = Some (SwitchStatusV2_zero\<lparr>SwitchStatusV2_Output := True\<rparr>)
           \<and> SwitchStatusV2_AEnergy (SwitchStatusV2_zero\<lparr>SwitchStatusV2_Output := True\<rparr>) = None"
    by (simp add: no_energy_def DeviceStatusV2_zero_def SwitchStatusV2_zero_def)
  show ?thesis
    using RenderEnergy_V2_precondition [where cfg = config_zero and M = encode_fixed
        and w = "[]", OF shellyPlugV2_Status_idle [of "''{}''" DeviceStatusV2_zero plug_address]]
      RenderEnergy_V2_precondition [where cfg = config_zero and M = encode_fixed
        and w = "[]", OF shellyPlugV2_Status_idle [of no_energy_body no_energy plug_address]]
      1 2
    by blast
qed

text \<open>
  C9. The generation 1 \<open>RenderEnergy\<close> also requires as many relays as meters: when the
  fetched status has exactly one meter and a number of relays other than one, it returns
  the error \<open>invalid relay information received\<close> and writes nothing to the sink.
\<close>

theorem RenderEnergy_V1_requires_relay:
  assumes "shellyPlugV1_Status U a net = (Inr status, net')"
    and "length (deviceStatusV1_Meters status) = 1"
    and "length (deviceStatusV1_Relays status) \<noteq> 1"
  shows "shellyPlugV1_RenderEnergy cfg M U a w net =
           (Return (Some (Errorf ''invalid relay information received'')), w, net')"
  using assms by (simp add: shellyPlugV1_RenderEnergy_def)

theorem RenderEnergy_V1_requires_relay_witness:
  "length (deviceStatusV1_Meters meters_only) = 1
   \<and> length (deviceStatusV1_Relays meters_only) \<noteq> 1
   \<and> shellyPlugV1_RenderEnergy metrics_config encode_fixed (decode_as meters_only_body meters_only)
       plug_address [] (idle_net meters_only_body)
     = (Return (Some (Errorf ''invalid relay information received'')), [],
        snd (shellyPlugV1_Status (decode_as meters_only_body meters_only) plug_address
               (idle_net meters_only_body)))"
proof -
  have m: "length (deviceStatusV1_Meters meters_only) = 1"
    and r: "length (deviceStatusV1_Relays meters_only) \<noteq> 1"
    by (simp_all add: meters_only_def deviceStatusV1_zero_def)
  show ?thesis
    using RenderEnergy_V1_requires_relay [where cfg = metrics_config and M = encode_fixed
        and w = "[]", OF shellyPlugV1_Status_idle [of meters_only_body meters_only plug_address]
        m r] m r
    by blast
qed

text \<open>
  C10. After checking only the switch and its energy counter, the generation 2
  \<open>RenderEnergy\<close> reads the temperature record: when the fetched status has both and the
  temperature record is nil, the call panics with a nil dereference, in every output mode
  and before anything is written.
\<close>

theorem RenderEnergy_V2_nil_temperature:
  assumes "shellyPlugV2_Status U a net = (Inr status, net')"
    and "DeviceStatusV2_Switch1 status = Some sw"
    and "SwitchStatusV2_AEnergy sw = Some energy"
    and "SwitchStatusV2_Temperature sw = None"
  shows "shellyPlugV2_RenderEnergy cfg M U a w net = (Panic nil_dereference, w, net')"
  using assms by (simp add: shellyPlugV2_RenderEnergy_def)

theorem RenderEnergy_V2_nil_temperature_witness:
  "shellyPlugV2_RenderEnergy config_zero encode_fixed (decode_as no_temperature_body no_temperature)
       plug_address [] (idle_net no_temperature_body)
     = (Panic nil_dereference, [],
        snd (shellyPlugV2_Status (decode_as no_temperature_body no_temperature) plug_address
               (idle_net no_temperature_body)))"
proof -
  let ?sw = "SwitchStatusV2_zero\<lparr>SwitchStatusV2_Output := True,
               SwitchStatusV2_APower := f64_const (242 / 100),
               SwitchStatusV2_AEnergy := Some energy_counter\<rparr>"
  have 1: "DeviceStatusV2_Switch1 no_temperature = Some ?sw"
    by (simp add: no_temperature_def DeviceStatusV2_zero_def)
  have 2: "SwitchStatusV2_AEnergy ?sw = Some energy_counter" by simp
  have 3: "SwitchStatusV2_Temperature ?sw = None" by (simp add: SwitchStatusV2_zero_def)
  show ?thesis
    using RenderEnergy_V2_nil_temperature [where cfg = config_zero and M = encode_fixed
        and w = "[]", OF shellyPlugV2_Status_idle 1 2 3] .
qed

section \<open>Energy totals\<close>

lemma RenderEnergy_V2_metrics:
  assumes "shellyPlugV2_Status U a net = (Inr status, net')"
    and "DeviceStatusV2_Switch1 status = Some sw"
    and "SwitchStatusV2_AEnergy sw = Some energy"
    and "SwitchStatusV2_Temperature sw = Some temperature"
    and "\<not> jsonFormat cfg" and "choriaFormat cfg"
  shows "shellyPlugV2_RenderEnergy cfg M U a w net =
           (case M (JObject
                 [(''labels'', JObject (map (\<lambda>(k, v). (k, JString v)) (labels cfg))),
                  (''metrics'', JObject
                     [(''current_power_watt'', JNumber (SwitchStatusV2_APower sw)),
                      (''current_power_volt'', JNumber (SwitchStatusV2_Voltage sw)),
                      (''current_power_ampere'', JNumber (SwitchStatusV2_Current sw)),
                      (''current_power_frequency'', JNumber (SwitchStatusV2_Freq sw)),
                      (''internal_celsius'', JNumber (TemperatureStatusV2_TC temperature)),
                      (''total_energy_kwh'',
                         JNumber (f64_div (ActiveEnergyV2_Total energy) (f64_const 1000))),
                      (''relay_on'',
                         JNumber (if SwitchStatusV2_Output sw then f64_const 1 else f64_const 0))])])
            of Inl err \<Rightarrow> (Return (Some err), w, net')
             | Inr j \<Rightarrow> (Return None, Fprintln w j, net'))"
  using assms by (simp add: shellyPlugV2_RenderEnergy_def index_def)

text \<open>
  C2. A generation 2 status with a switch and an energy counter, as a plug without a
  temperature sensor reports it, makes \<open>RenderEnergy\<close> in metrics mode panic on the nil
  temperature record: no \<open>total_energy_kwh\<close> is emitted, and nothing else.
\<close>

theorem RenderEnergy_V2_metrics_panics:
  "shellyPlugV2_RenderEnergy metrics_config encode_fixed
       (decode_as no_temperature_body no_temperature) plug_address [] (idle_net no_temperature_body)
     = (Panic nil_dereference, [],
        snd (shellyPlugV2_Status (decode_as no_temperature_body no_temperature) plug_address
               (idle_net no_temperature_body)))"
proof -
  define net' where
    "net' = snd (shellyPlugV2_Status (decode_as no_temperature_body no_temperature) plug_address
                   (idle_net no_temperature_body))"
  have st: "shellyPlugV2_Status (decode_as no_temperature_body no_temperature) plug_address
              (idle_net no_temperature_body) = (Inr no_temperature, net')"
    unfolding net'_def by (rule shellyPlugV2_Status_idle)
  show ?thesis
    unfolding shellyPlugV2_RenderEnergy_def st
    by (simp add: no_temperature_def DeviceStatusV2_zero_def SwitchStatusV2_zero_def)
qed

text \<open>
  C1. When the fetched generation 1 status has exactly one relay and one meter,
  \<open>RenderEnergy\<close> in JSON mode hands the encoder an object whose \<open>power_total_kwh\<close> is a
  finite double within a relative \<open>2 ^ 51\<close>-th (four rounding units) of the meter's
  \<open>Total\<close> divided by 60000, and prints the encoder's text as a line; if the
  encoder fails, its error is returned and nothing is written.
\<close>

theorem RenderEnergy_V1_json_total:
  assumes "shellyPlugV1_Status U a net = (Inr status, net')"
    and "deviceStatusV1_Relays status = [r]"
    and "deviceStatusV1_Meters status = [m]"
    and "jsonFormat cfg"
  shows "let kwh = f64_mul (float64_of_int64 (meterV1_Total m))
                     (f64_const (16666666666666667 / 1000000000000000000000))
         in shellyPlugV1_RenderEnergy cfg M U a w net =
              (case M (JObject
                    [(''power_watt'', JNumber (meterV1_Power m)),
                     (''power_total_kwh'', JNumber kwh),
                     (''is_on'', JNumber (if relayV1_IsOn r then f64_const 1 else f64_const 0))])
               of Inl err \<Rightarrow> (Return (Some err), w, net')
                | Inr j \<Rightarrow> (Return None, Fprintln w j, net'))
            \<and> is_finite kwh
            \<and> \<bar>f64_value kwh - of_int (sint (meterV1_Total m)) / 60000\<bar>
                \<le> \<bar>of_int (sint (meterV1_Total m)) / 60000\<bar> / 2 ^ 51"
proof -
  have "shellyPlugV1_RenderEnergy cfg M U a w net =
          (case M (JObject
                [(''power_watt'', JNumber (meterV1_Power m)),
                 (''power_total_kwh'',
                    JNumber (f64_mul (float64_of_int64 (meterV1_Total m))
                               (f64_const (16666666666666667 / 1000000000000000000000)))),
                 (''is_on'', JNumber (if relayV1_IsOn r then f64_const 1 else f64_const 0))])
           of Inl err \<Rightarrow> (Return (Some err), w, net')
            | Inr j \<Rightarrow> (Return None, Fprintln w j, net'))"
    using assms by (simp add: shellyPlugV1_RenderEnergy_def)
  then show ?thesis
    unfolding Let_def using kwh_within_tolerance [of "meterV1_Total m"] by blast
qed


theorem RenderEnergy_V1_json_total_witness:
  "fst (shellyPlugV1_RenderEnergy json_config encode_fixed
          (decode_as relay_and_meter_body relay_and_meter) plug_address []
          (idle_net relay_and_meter_body)) = Return None
   \<and> fst (snd (shellyPlugV1_RenderEnergy json_config encode_fixed
          (decode_as relay_and_meter_body relay_and_meter) plug_address []
          (idle_net relay_and_meter_body))) = ''{}\<newline>''
   \<and> \<bar>f64_value (f64_mul (float64_of_int64 615)
                      (f64_const (16666666666666667 / 1000000000000000000000))) - 615 / 60000\<bar>
       \<le> 615 / 60000 / 2 ^ 51"
proof -
  have r: "deviceStatusV1_Relays relay_and_meter = [relayV1_zero\<lparr>relayV1_IsOn := True\<rparr>]"
    and m: "deviceStatusV1_Meters relay_and_meter = [meter_reading]"
    by (simp_all add: relay_and_meter_def)
  have j: "jsonFormat json_config" by (simp add: json_config_def)
  have t: "meterV1_Total meter_reading = 615" by (simp add: meter_reading_def)
  show ?thesis
    using RenderEnergy_V1_json_total [where cfg = json_config and M = encode_fixed and w = "[]",
        OF shellyPlugV1_Status_idle r m j]
    by (simp add: Let_def t encode_fixed_def Fprintln_def)
qed

section \<open>The plain report of generation 1\<close>

text \<open>
  C5, as the code has it. For the status whose one meter reads power 2.45 and total 615,
  and which lists exactly one relay, \<open>RenderEnergy\<close> in plain-text mode writes the heading,
  an empty line, the relay state and the lines \<open>Power: 2.45 Watt\<close> and
  \<open>Total Consumption: 0.01 kWh\<close>, each behind its padding.
\<close>

theorem RenderEnergy_V1_plain_report:
  assumes "shellyPlugV1_Status U a net = (Inr status, net')"
    and "deviceStatusV1_Relays status = [r]"
    and "deviceStatusV1_Meters status = [m]"
    and "meterV1_Power m = f64_const (245 / 100)" and "meterV1_Total m = 615"
    and "\<not> jsonFormat cfg" and "\<not> choriaFormat cfg"
  shows "shellyPlugV1_RenderEnergy cfg M U a w net =
           (Return None,
            w @ ''Meter Information\<newline>''
              @ ''\<newline>''
              @ ''          Powered On: '' @ fmt_t (relayV1_IsOn r) @ ''\<newline>''
              @ ''               Power: 2.45 Watt\<newline>''
              @ ''   Total Consumption: 0.01 kWh\<newline>'',
            net')"
  using assms
  by (simp add: shellyPlugV1_RenderEnergy_def Let_def Fprintln_def is_on_eq_1 kwh_of_615
      f64_const_245 fmt_f2_power fmt_f2_kwh del: fmt_f2.simps)

theorem RenderEnergy_V1_plain_report_witness:
  "shellyPlugV1_RenderEnergy config_zero encode_fixed
       (decode_as relay_and_meter_body relay_and_meter) plug_address []
       (idle_net relay_and_meter_body)
     = (Return None,
        ''Meter Information\<newline>\<newline>          Powered On: true\<newline>               Power: 2.45 Watt\<newline>   Total Consumption: 0.01 kWh\<newline>'',
        snd (shellyPlugV1_Status (decode_as relay_and_meter_body relay_and_meter) plug_address
               (idle_net relay_and_meter_body)))"
proof -
  have r: "deviceStatusV1_Relays relay_and_meter = [relayV1_zero\<lparr>relayV1_IsOn := True\<rparr>]"
    and m: "deviceStatusV1_Meters relay_and_meter = [meter_reading]"
    by (simp_all add: relay_and_meter_def)
  have p: "meterV1_Power meter_reading = f64_const (245 / 100)"
    and t: "meterV1_Total meter_reading = 615"
    by (simp_all add: meter_reading_def)
  have c: "\<not> jsonFormat config_zero" "\<not> choriaFormat config_zero"
    by (simp_all add: config_zero_def)
  show ?thesis
    using RenderEnergy_V1_plain_report [where cfg = config_zero and M = encode_fixed
        and w = "[]", OF shellyPlugV1_Status_idle r m p t c]
    by (simp add: fmt_t_def)
qed

text \<open>
  The payload of C5 itself lists no relay: there the same call returns the error
  \<open>invalid relay information received\<close> and the sink stays empty.
\<close>

theorem RenderEnergy_V1_meters_only_fails:
  "fst (shellyPlugV1_RenderEnergy config_zero encode_fixed
          (decode_as meters_only_body meters_only) plug_address [] (idle_net meters_only_body))
     = Return (Some (Errorf ''invalid relay information received''))
   \<and> fst (snd (shellyPlugV1_RenderEnergy config_zero encode_fixed
          (decode_as meters_only_body meters_only) plug_address [] (idle_net meters_only_body)))
     = []"
proof -
  define net' where
    "net' = snd (shellyPlugV1_Status (decode_as meters_only_body meters_only) plug_address
                   (idle_net meters_only_body))"
  have st: "shellyPlugV1_Status (decode_as meters_only_body meters_only) plug_address
              (idle_net meters_only_body) = (Inr meters_only, net')"
    unfolding net'_def by (rule shellyPlugV1_Status_idle)
  show ?thesis
    unfolding shellyPlugV1_RenderEnergy_def st
    by (simp add: meters_only_def deviceStatusV1_zero_def)
qed

end
